theory Spec2Isabelle
  imports Main "HOL-Library.Word"
begin

unbundle bit_operations_syntax

section \<open>Global state of the firmware\<close>

text \<open>
  The firmware keeps its state in file-level variables: the two 16-bit coil words of
  \<^verbatim>\<open>coil_reg_params\<close>, the 16-bit word of \<^verbatim>\<open>discrete_reg_params\<close> and the flag
  \<^verbatim>\<open>outputs_enabled\<close> (all in \<^verbatim>\<open>esp32_rio_modbus_tcp_slave.c\<close>), and the pins it
  reaches through the GPIO driver. The driver is not part of the repository; a pin is
  modelled by the level last written with \<^verbatim>\<open>gpio_set_level\<close> (\<open>gpio_out\<close>) and the
  level \<^verbatim>\<open>gpio_get_level\<close> samples (\<open>gpio_in\<close>, owned by the environment).
  Pins are numbered by natural numbers, levels are booleans (\<open>True\<close> is 1).
\<close>

record app_state =
  coils_bank0 :: "16 word"
  coils_bank1 :: "16 word"
  discrete_inputs :: "16 word"
  outputs_enabled :: bool
  gpio_out :: "nat \<Rightarrow> bool"
  gpio_in :: "nat \<Rightarrow> bool"

definition gpio_set_level :: "nat \<Rightarrow> bool \<Rightarrow> app_state \<Rightarrow> app_state" where
  "gpio_set_level pin level s = s\<lparr>gpio_out := (gpio_out s)(pin := level)\<rparr>"

definition gpio_get_level :: "nat \<Rightarrow> app_state \<Rightarrow> bool" where
  "gpio_get_level pin s = gpio_in s pin"

section \<open>Coil macros (modbus\_params.h)\<close>

definition OE_COIL_ADDR :: nat where
  "OE_COIL_ADDR = 31"

text \<open>
  Each macro first stores its argument in \<^verbatim>\<open>uint16_t addr\<close>; that 16-bit address is
  the parameter here, and a caller converts its \<^verbatim>\<open>int\<close> with \<open>of_nat\<close>. The
  critical section around the body excludes the other tasks and has no effect of its own.
  \<^verbatim>\<open>1U\<close> is a 32-bit and \<^verbatim>\<open>1ULL\<close> a 64-bit unsigned constant; the 16-bit coil
  word is widened for the operation and the result narrowed on assignment.
\<close>

definition MB_IS_COIL_ON :: "16 word \<Rightarrow> app_state \<Rightarrow> bool" where
  "MB_IS_COIL_ON addr s =
     (if addr < 16 then
        (ucast (coils_bank0 s) AND push_bit (unat addr) (1 :: 32 word)) \<noteq> 0
      else if addr \<ge> 16 \<and> addr < 32 then
        (ucast (coils_bank1 s) AND push_bit (unat (addr - 16)) (1 :: 32 word)) \<noteq> 0
      else False)"

definition MB_TURN_COIL_ON :: "16 word \<Rightarrow> app_state \<Rightarrow> app_state" where
  "MB_TURN_COIL_ON addr s =
     (if addr < 16 then
        s\<lparr>coils_bank0 :=
            ucast (ucast (coils_bank0 s) OR push_bit (unat addr) (1 :: 32 word))\<rparr>
      else if addr \<ge> 16 \<and> addr < 32 then
        s\<lparr>coils_bank1 :=
            ucast (ucast (coils_bank1 s) OR push_bit (unat (addr - 16)) (1 :: 32 word))\<rparr>
      else s)"

definition MB_TURN_COIL_OFF :: "16 word \<Rightarrow> app_state \<Rightarrow> app_state" where
  "MB_TURN_COIL_OFF addr s =
     (if addr < 16 then
        s\<lparr>coils_bank0 :=
            ucast (ucast (coils_bank0 s) AND NOT (push_bit (unat addr) (1 :: 64 word)))\<rparr>
      else if addr \<ge> 16 \<and> addr < 32 then
        s\<lparr>coils_bank1 :=
            ucast (ucast (coils_bank1 s) AND NOT (push_bit (unat (addr - 16)) (1 :: 64 word)))\<rparr>
      else s)"

section \<open>Remote I/O component (remote\_io.c)\<close>

definition ESP32_RIO_NUM_IO_CHANNELS :: nat where
  "ESP32_RIO_NUM_IO_CHANNELS = 10"

definition STATUS_LED :: nat where
  "STATUS_LED = 43"


definition DI :: "nat list" where
  "DI = [4, 5, 6, 7, 15, 16, 17, 9, 8, 18]"

definition DQ0 :: "nat list" where
  "DQ0 = [10, 12, 14, 47, 39, 40, 41, 42, 2, 1]"

definition DQ1 :: "nat list" where
  "DQ1 = [46, 11, 13, 21, 48, 45, 35, 36, 37, 38]"

text \<open>
  The accessors index the pin tables with their argument and do not check it. An index
  past the end of a table is undefined behaviour in C; the model returns \<open>None\<close> there.
  A bank number other than 0 or 1 falls through both tests and nothing is written.
\<close>

definition esp32_rio_is_input_on :: "nat \<Rightarrow> app_state \<Rightarrow> bool option" where
  "esp32_rio_is_input_on input_number s =
     (if input_number < length DI then Some (gpio_get_level (DI ! input_number) s)
      else None)"

definition esp32_rio_turn_output_on :: "nat \<Rightarrow> nat \<Rightarrow> app_state \<Rightarrow> app_state option" where
  "esp32_rio_turn_output_on bank_number output_number s =
     (if bank_number = 0 then
        (if output_number < length DQ0
         then Some (gpio_set_level (DQ0 ! output_number) True s) else None)
      else if bank_number = 1 then
        (if output_number < length DQ1
         then Some (gpio_set_level (DQ1 ! output_number) True s) else None)
      else Some s)"

definition esp32_rio_turn_output_off :: "nat \<Rightarrow> nat \<Rightarrow> app_state \<Rightarrow> app_state option" where
  "esp32_rio_turn_output_off bank_number output_number s =
     (if bank_number = 0 then
        (if output_number < length DQ0
         then Some (gpio_set_level (DQ0 ! output_number) False s) else None)
      else if bank_number = 1 then
        (if output_number < length DQ1
         then Some (gpio_set_level (DQ1 ! output_number) False s) else None)
      else Some s)"

text \<open>
  \<^verbatim>\<open>esp32_rio_disable_outputs\<close> runs \<open>i\<close> over the channels and writes 0 to both
  lines of each; the loop bound is the length of the tables.
\<close>

definition esp32_rio_disable_outputs :: "app_state \<Rightarrow> app_state" where
  "esp32_rio_disable_outputs s =
     fold (\<lambda>i t. gpio_set_level (DQ1 ! i) False (gpio_set_level (DQ0 ! i) False t))
       [0..<ESP32_RIO_NUM_IO_CHANNELS] s"

definition esp32_rio_turn_status_led_on :: "app_state \<Rightarrow> app_state" where
  "esp32_rio_turn_status_led_on s = gpio_set_level STATUS_LED True s"

definition esp32_rio_turn_status_led_off :: "app_state \<Rightarrow> app_state" where
  "esp32_rio_turn_status_led_off s = gpio_set_level STATUS_LED False s"

text \<open>
  \<^verbatim>\<open>esp32_rio_configure_gpio\<close>: the pin configuration calls set modes only; the
  levels written are 0 on the status LED and 0 on both lines of every channel.
\<close>

definition esp32_rio_configure_gpio :: "app_state \<Rightarrow> app_state" where
  "esp32_rio_configure_gpio s =
     fold (\<lambda>i t. gpio_set_level (DQ1 ! i) False (gpio_set_level (DQ0 ! i) False t))
       [0..<ESP32_RIO_NUM_IO_CHANNELS] (gpio_set_level STATUS_LED False s)"

section \<open>Application callbacks (esp32\_rio\_modbus\_tcp\_slave.c)\<close>

text \<open>
  \<^verbatim>\<open>update_digital_outputs\<close>: for each channel \<open>i\<close>, bank 0 follows coil \<open>i\<close> and
  bank 1 follows coil \<open>i + 16\<close>.
\<close>

definition update_digital_outputs_body :: "nat \<Rightarrow> app_state \<Rightarrow> app_state option" where
  "update_digital_outputs_body i s =
     Option.bind
       (if MB_IS_COIL_ON (of_nat i) s then esp32_rio_turn_output_on 0 i s
        else esp32_rio_turn_output_off 0 i s)
       (\<lambda>t. if MB_IS_COIL_ON (of_nat (i + 16)) t then esp32_rio_turn_output_on 1 i t
            else esp32_rio_turn_output_off 1 i t)"

definition update_digital_outputs :: "app_state \<Rightarrow> app_state option" where
  "update_digital_outputs s =
     fold (\<lambda>i r. Option.bind r (update_digital_outputs_body i))
       [0..<ESP32_RIO_NUM_IO_CHANNELS] (Some s)"

definition on_oe_button_toggle :: "app_state \<Rightarrow> app_state option" where
  "on_oe_button_toggle s =
     (if outputs_enabled s then
        Some (esp32_rio_turn_status_led_off
               (esp32_rio_disable_outputs
                 (MB_TURN_COIL_OFF (of_nat OE_COIL_ADDR) (s\<lparr>outputs_enabled := False\<rparr>))))
      else
        Option.bind (update_digital_outputs s)
          (\<lambda>t. Some (esp32_rio_turn_status_led_on
                       (MB_TURN_COIL_ON (of_nat OE_COIL_ADDR) (t\<lparr>outputs_enabled := True\<rparr>)))))"

text \<open>
  \<^verbatim>\<open>on_di_level_change\<close>: \<^verbatim>\<open>1U << input_number\<close> is a 32-bit value; the 16-bit
  register is widened for the operation and narrowed on assignment.
\<close>

definition on_di_level_change :: "nat \<Rightarrow> app_state \<Rightarrow> app_state option" where
  "on_di_level_change input_number s =
     Option.bind (esp32_rio_is_input_on input_number s)
       (\<lambda>on. if on then
               Some (s\<lparr>discrete_inputs :=
                 ucast (ucast (discrete_inputs s) OR push_bit input_number (1 :: 32 word))\<rparr>)
             else
               Some (s\<lparr>discrete_inputs :=
                 ucast (ucast (discrete_inputs s) AND NOT (push_bit input_number (1 :: 32 word)))\<rparr>))"

text \<open>
  \<^verbatim>\<open>setup_reg_data\<close>: both coil words are cleared, then every input is probed and
  its bit of the discrete-input word set or cleared.
\<close>

definition setup_reg_data_body :: "nat \<Rightarrow> app_state \<Rightarrow> app_state option" where
  "setup_reg_data_body i s =
     Option.bind (esp32_rio_is_input_on i s)
       (\<lambda>on. if on then
               Some (s\<lparr>discrete_inputs :=
                 ucast (ucast (discrete_inputs s) OR push_bit i (1 :: 32 word))\<rparr>)
             else
               Some (s\<lparr>discrete_inputs :=
                 ucast (ucast (discrete_inputs s) AND NOT (push_bit i (1 :: 32 word)))\<rparr>))"

definition setup_reg_data :: "app_state \<Rightarrow> app_state option" where
  "setup_reg_data s =
     fold (\<lambda>i r. Option.bind r (setup_reg_data_body i))
       [0..<ESP32_RIO_NUM_IO_CHANNELS] (Some (s\<lparr>coils_bank0 := 0, coils_bank1 := 0\<rparr>))"

text \<open>
  One pass of the endless loop of \<^verbatim>\<open>mb_slave_run\<close>. The protocol engine (not part of
  the repository) has stored whatever the master wrote into the coil words before it
  reports the event; \<^verbatim>\<open>reg_info.type\<close> is a word of event flags, modelled by the set
  of flags that are up. Only the three flags of \<^verbatim>\<open>MB_READ_WRITE_MASK\<close> are tested.
  Logging has no effect on the state. \<^verbatim>\<open>continue\<close> ends the pass.
\<close>

datatype mb_event_group = MB_EVENT_DISCRETE_RD | MB_EVENT_COILS_RD | MB_EVENT_COILS_WR

definition mb_slave_run_pass :: "mb_event_group set \<Rightarrow> app_state \<Rightarrow> app_state option" where
  "mb_slave_run_pass reg_info_type s =
     (if MB_EVENT_DISCRETE_RD \<in> reg_info_type then Some s
      else if MB_EVENT_COILS_RD \<in> reg_info_type then Some s
      else if MB_EVENT_COILS_WR \<in> reg_info_type then
        (let oe_coil_on = MB_IS_COIL_ON (of_nat OE_COIL_ADDR) s in
           if outputs_enabled s then
             (if \<not> oe_coil_on then
                Some (esp32_rio_turn_status_led_off
                       ((esp32_rio_disable_outputs s)\<lparr>outputs_enabled := False\<rparr>))
              else update_digital_outputs s)
           else if oe_coil_on then
             Option.bind (update_digital_outputs s)
               (\<lambda>t. Some (esp32_rio_turn_status_led_on (t\<lparr>outputs_enabled := True\<rparr>)))
           else Some s)
      else Some s)"

section \<open>Start-up and the two tasks\<close>

text \<open>
  The variables start from their static initialisers (\<^verbatim>\<open>{ 0 }\<close> and \<^verbatim>\<open>false\<close>);
  the pins start at the levels \<open>g\<close> the hardware powers up with, and \<open>e\<close> gives the
  levels of the input lines.
\<close>

definition static_init :: "(nat \<Rightarrow> bool) \<Rightarrow> (nat \<Rightarrow> bool) \<Rightarrow> app_state" where
  "static_init g e =
     \<lparr>coils_bank0 = 0, coils_bank1 = 0, discrete_inputs = 0, outputs_enabled = False,
      gpio_out = g, gpio_in = e\<rparr>"

text \<open>
  \<^verbatim>\<open>app_main\<close> configures the pins, then \<^verbatim>\<open>init_services\<close> registers
  \<^verbatim>\<open>on_oe_button_toggle\<close> with the I/O services, then \<^verbatim>\<open>esp32_rio_connect\<close> waits for
  the network, and only then \<^verbatim>\<open>mb_slave_init\<close> calls \<^verbatim>\<open>setup_reg_data\<close> and starts
  the protocol engine. From the registration on, every debounced button press runs the
  callback, so any number of presses can fall into the wait; each runs the callback to
  its end, the main task being blocked. No master write can come before the engine is
  started. Input edges during the wait reach only \<open>discrete_inputs\<close>, which
  \<^verbatim>\<open>setup_reg_data\<close> fills afresh.
\<close>

fun button_presses :: "nat \<Rightarrow> app_state \<Rightarrow> app_state option" where
  "button_presses 0 s = Some s"
| "button_presses (Suc n) s = Option.bind (on_oe_button_toggle s) (button_presses n)"

definition app_main_startup ::
    "(nat \<Rightarrow> bool) \<Rightarrow> (nat \<Rightarrow> bool) \<Rightarrow> nat \<Rightarrow> app_state option" where
  "app_main_startup g e presses =
     Option.bind (button_presses presses (esp32_rio_configure_gpio (static_init g e)))
       setup_reg_data"

text \<open>
  Once the loop of \<^verbatim>\<open>mb_slave_run\<close> runs, two tasks work on the same variables: the
  main task, in that loop, and the timer task, in which the debounce timer calls
  \<^verbatim>\<open>on_oe_button_toggle\<close>. \<^verbatim>\<open>param_lock\<close> is held inside each coil macro only, and
  \<^verbatim>\<open>outputs_enabled\<close> is read and written without it, so the timer task can run
  between any two statements of the main task. The handling of a coil write (lines 312
  to 330) is therefore taken statement by statement. A position of the main task is:
  waiting for the engine; about to read coil 31 (line 312); about to test
  \<^verbatim>\<open>outputs_enabled\<close> with \<^verbatim>\<open>oe_coil_on\<close> in hand (line 313); at one of the three
  statements of the disabling branch (lines 316 to 318); inside
  \<^verbatim>\<open>update_digital_outputs\<close>, before the statement for bank \<open>bank\<close> of channel \<open>i\<close>,
  with a flag that tells whether the enabling statements follow (the call of line 326)
  or not (the call of line 323); or at one of the two enabling statements (lines 327
  and 328).
\<close>

datatype pass_pc =
    AT_WAIT
  | AT_READ_OE
  | AT_TEST bool
  | AT_DISABLE_OUTPUTS
  | AT_CLEAR_ENABLED
  | AT_LED_OFF
  | AT_UPDATE nat nat bool
  | AT_SET_ENABLED
  | AT_LED_ON

fun mb_slave_run_step :: "pass_pc \<Rightarrow> app_state \<Rightarrow> (pass_pc \<times> app_state) option" where
  "mb_slave_run_step AT_WAIT s = Some (AT_WAIT, s)"
| "mb_slave_run_step AT_READ_OE s =
     Some (AT_TEST (MB_IS_COIL_ON (of_nat OE_COIL_ADDR) s), s)"
| "mb_slave_run_step (AT_TEST oe_coil_on) s =
     Some (if outputs_enabled s then
             (if \<not> oe_coil_on then AT_DISABLE_OUTPUTS else AT_UPDATE 0 0 False)
           else if oe_coil_on then AT_UPDATE 0 0 True
           else AT_WAIT, s)"
| "mb_slave_run_step AT_DISABLE_OUTPUTS s = Some (AT_CLEAR_ENABLED, esp32_rio_disable_outputs s)"
| "mb_slave_run_step AT_CLEAR_ENABLED s = Some (AT_LED_OFF, s\<lparr>outputs_enabled := False\<rparr>)"
| "mb_slave_run_step AT_LED_OFF s = Some (AT_WAIT, esp32_rio_turn_status_led_off s)"
| "mb_slave_run_step (AT_UPDATE i bank then_enable) s =
     (if i < ESP32_RIO_NUM_IO_CHANNELS then
        (if bank = 0 then
           map_option (Pair (AT_UPDATE i 1 then_enable))
             (if MB_IS_COIL_ON (of_nat i) s then esp32_rio_turn_output_on 0 i s
              else esp32_rio_turn_output_off 0 i s)
         else
           map_option (Pair (AT_UPDATE (i + 1) 0 then_enable))
             (if MB_IS_COIL_ON (of_nat (i + 16)) s then esp32_rio_turn_output_on 1 i s
              else esp32_rio_turn_output_off 1 i s))
      else Some (if then_enable then AT_SET_ENABLED else AT_WAIT, s))"
| "mb_slave_run_step AT_SET_ENABLED s = Some (AT_LED_ON, s\<lparr>outputs_enabled := True\<rparr>)"
| "mb_slave_run_step AT_LED_ON s = Some (AT_WAIT, esp32_rio_turn_status_led_on s)"

text \<open>
  The events of the running system: the main task executes its next statement; the
  engine reports a coil write, which takes the main task from its wait to line 312; the
  timer task runs \<^verbatim>\<open>on_oe_button_toggle\<close> for a debounced press, here always to its end
  before the main task goes on; the engine stores the coil words a master has written.
  A schedule is a list of such events.
\<close>

datatype sys_event =
    MAIN_TASK_STEP
  | COILS_WR_REPORTED
  | TIMER_TASK_TOGGLE
  | MASTER_COIL_WRITE "16 word" "16 word"

fun sys_step :: "sys_event \<Rightarrow> pass_pc \<times> app_state \<Rightarrow> (pass_pc \<times> app_state) option" where
  "sys_step MAIN_TASK_STEP (pc, s) = mb_slave_run_step pc s"
| "sys_step COILS_WR_REPORTED (pc, s) = Some (if pc = AT_WAIT then AT_READ_OE else pc, s)"
| "sys_step TIMER_TASK_TOGGLE (pc, s) = map_option (Pair pc) (on_oe_button_toggle s)"
| "sys_step (MASTER_COIL_WRITE b0 b1) (pc, s) =
     Some (pc, s\<lparr>coils_bank0 := b0, coils_bank1 := b1\<rparr>)"

fun sys_run :: "sys_event list \<Rightarrow> pass_pc \<times> app_state \<Rightarrow> (pass_pc \<times> app_state) option" where
  "sys_run [] st = Some st"
| "sys_run (ev # evs) st = Option.bind (sys_step ev st) (sys_run evs)"

text \<open>
  Two schedules. In the first the master writes every output coil and coil 31 and the
  write is handled undisturbed, which enables the interlock; the master writes the same
  again, and this time the button is pressed while the main task is inside
  \<^verbatim>\<open>update_digital_outputs\<close>, after the statement for bank 0 of channel 0. In the
  second the master writes coil 0 alone and the button is pressed between line 312 and
  line 313.
\<close>

definition toggle_inside_update :: "sys_event list" where
  "toggle_inside_update =
     [MASTER_COIL_WRITE 0x03FF 0x83FF, COILS_WR_REPORTED] @ replicate 25 MAIN_TASK_STEP @
     [MASTER_COIL_WRITE 0x03FF 0x83FF, COILS_WR_REPORTED,
      MAIN_TASK_STEP, MAIN_TASK_STEP, MAIN_TASK_STEP, TIMER_TASK_TOGGLE] @
     replicate 20 MAIN_TASK_STEP"

definition toggle_after_read :: "sys_event list" where
  "toggle_after_read =
     [MASTER_COIL_WRITE 0x0001 0x0000, COILS_WR_REPORTED, MAIN_TASK_STEP, TIMER_TASK_TOGGLE,
      MAIN_TASK_STEP, MAIN_TASK_STEP, MAIN_TASK_STEP, MAIN_TASK_STEP]"

text \<open>Predicates on states: every output line off; every output line equal to its coil.\<close>

definition all_outputs_off :: "app_state \<Rightarrow> bool" where
  "all_outputs_off s =
     (\<forall>k<ESP32_RIO_NUM_IO_CHANNELS. \<not> gpio_out s (DQ0 ! k) \<and> \<not> gpio_out s (DQ1 ! k))"

definition outputs_mirror_coils :: "app_state \<Rightarrow> bool" where
  "outputs_mirror_coils s =
     (\<forall>k<ESP32_RIO_NUM_IO_CHANNELS.
        gpio_out s (DQ0 ! k) = MB_IS_COIL_ON (of_nat k) s \<and>
        gpio_out s (DQ1 ! k) = MB_IS_COIL_ON (of_nat (k + 16)) s)"

text \<open>
  A pass of \<^verbatim>\<open>mb_slave_run\<close> handles its event as a coil write when neither read
  flag is up and the write flag is.
\<close>

definition coil_write_event :: "mb_event_group set \<Rightarrow> bool" where
  "coil_write_event reg_info_type =
     (MB_EVENT_DISCRETE_RD \<notin> reg_info_type \<and> MB_EVENT_COILS_RD \<notin> reg_info_type \<and>
      MB_EVENT_COILS_WR \<in> reg_info_type)"

section \<open>I/O services: interrupt handler, debounce timer and input task (remote\_io.c)\<close>



record 'a io_services =
  s_button_pressed :: bool
  s_debounce_timer :: "nat option"
  s_io_event_queue :: "nat list"
  s_oe_button_toggle_callback :: "('a \<Rightarrow> 'a option) option"
  s_di_level_change_callback :: "(nat \<Rightarrow> 'a \<Rightarrow> 'a option) option"






text \<open>
  One pass of the endless loop of \<^verbatim>\<open>io_task\<close>: \<^verbatim>\<open>xQueueReceive\<close> blocks while the
  queue is empty and otherwise takes its head; the \<^verbatim>\<open>for\<close> loop compares it with
  \<^verbatim>\<open>DI[i]\<close> for \<open>i\<close> from 0 and leaves at the first match. The level read there
  is only logged.
\<close>

function io_task_scan ::
    "nat \<Rightarrow> nat \<Rightarrow> 'a io_services \<times> 'a \<Rightarrow> ('a io_services \<times> 'a) option" where
  "io_task_scan io_num i (io, app) =
     (if i < ESP32_RIO_NUM_IO_CHANNELS then
        (if io_num = DI ! i then
           (case s_di_level_change_callback io of
              Some cb \<Rightarrow> map_option (Pair io) (cb i app)
            | None \<Rightarrow> Some (io, app))
         else io_task_scan io_num (i + 1) (io, app))
      else Some (io, app))"
  by pat_completeness auto
termination
  by (relation "measure (\<lambda>(io_num, i, st). ESP32_RIO_NUM_IO_CHANNELS - i)") auto

declare io_task_scan.simps [simp del]

definition io_task_pass :: "'a io_services \<times> 'a \<Rightarrow> ('a io_services \<times> 'a) option" where
  "io_task_pass st =
     (case st of (io, app) \<Rightarrow>
        (case s_io_event_queue io of
           [] \<Rightarrow> Some (io, app)
         | io_num # rest \<Rightarrow> io_task_scan io_num 0 (io\<lparr>s_io_event_queue := rest\<rparr>, app)))"





text \<open>The services right after a button edge, with \<open>remaining\<close> milliseconds to go.\<close>

definition armed :: "'a io_services \<Rightarrow> nat \<Rightarrow> 'a io_services" where
  "armed io remaining = io\<lparr>s_button_pressed := True, s_debounce_timer := Some remaining\<rparr>"

section \<open>Sample states\<close>

text \<open>Sample states for the closed instances below; \<open>all_low\<close> has every pin at 0.\<close>

definition all_low :: "nat \<Rightarrow> bool" where
  "all_low = (\<lambda>pin. False)"

definition enabled_sample :: app_state where
  "enabled_sample =
     \<lparr>coils_bank0 = 0x0001, coils_bank1 = 0x8000, discrete_inputs = 0,
      outputs_enabled = True, gpio_out = all_low(10 := True, 43 := True), gpio_in = all_low\<rparr>"

definition coil26_sample :: app_state where
  "coil26_sample =
     \<lparr>coils_bank0 = 0x0000, coils_bank1 = 0x0400, discrete_inputs = 0,
      outputs_enabled = False, gpio_out = all_low, gpio_in = all_low\<rparr>"

definition coil20_sample :: app_state where
  "coil20_sample =
     \<lparr>coils_bank0 = 0x0020, coils_bank1 = 0x0010, discrete_inputs = 0,
      outputs_enabled = True, gpio_out = all_low, gpio_in = all_low\<rparr>"

definition input3_sample :: app_state where
  "input3_sample =
     \<lparr>coils_bank0 = 0x0001, coils_bank1 = 0x8000, discrete_inputs = 0x0201,
      outputs_enabled = True, gpio_out = all_low, gpio_in = all_low(7 := True)\<rparr>"

definition disabled_sample :: app_state where
  "disabled_sample =
     \<lparr>coils_bank0 = 0x0005, coils_bank1 = 0x0000, discrete_inputs = 0,
      outputs_enabled = False, gpio_out = all_low, gpio_in = all_low\<rparr>"


definition io_failing_sample :: "app_state io_services" where
  "io_failing_sample =
     \<lparr>s_button_pressed = False, s_debounce_timer = None, s_io_event_queue = [99],
      s_oe_button_toggle_callback = Some on_oe_button_toggle,
      s_di_level_change_callback = Some (\<lambda>i app. None)\<rparr>"

section \<open>Facts about the coil macros\<close>

lemma coil_test_bit:
  "n < 16 \<Longrightarrow> ((ucast (w :: 16 word) AND push_bit n (1 :: 32 word)) \<noteq> 0) = bit w n"
proof -
  assume n: "n < 16"
  have "(ucast w AND push_bit n (1 :: 32 word) \<noteq> 0) = bit (ucast w :: 32 word) n"
    by (rule bit_iff_and_push_bit_not_eq_0 [symmetric])
  also have "\<dots> = bit w n"
    using n by (simp add: bit_simps)
  finally show ?thesis .
qed

lemma coil_set_bit:
  "n < 16 \<Longrightarrow>
   bit (ucast (ucast (w :: 16 word) OR push_bit n (1 :: 32 word)) :: 16 word) k =
     (k < 16 \<and> (k = n \<or> bit w k))"
  by (auto simp add: bit_simps dest: bit_imp_le_length)

lemma coil_clear_bit:
  "n < 16 \<Longrightarrow>
   bit (ucast (ucast (w :: 16 word) AND NOT (push_bit n (1 :: 64 word))) :: 16 word) k =
     (k \<noteq> n \<and> bit w k)"
  by (auto simp add: bit_simps dest: bit_imp_le_length)

text \<open>
  C10. For every 16-bit coil address \<open>a\<close> with \<open>a \<ge> 32\<close>, the test \<open>MB_IS_COIL_ON a\<close>
  is false and the writes \<open>MB_TURN_COIL_ON a\<close> and \<open>MB_TURN_COIL_OFF a\<close> return the
  state unchanged, so both coil words keep their value and no bit outside them is
  addressed.
\<close>

theorem coil_out_of_range_noop:
  "32 \<le> a \<Longrightarrow>
     \<not> MB_IS_COIL_ON a s \<and> MB_TURN_COIL_ON a s = s \<and> MB_TURN_COIL_OFF a s = s"
proof -
  assume a: "32 \<le> a"
  then have hi: "\<not> a < 32"
    by (simp add: not_less)
  have "(16 :: 16 word) \<le> 32"
    by simp
  with a have "16 \<le> a"
    by (rule order_trans [rotated])
  then have lo: "\<not> a < 16"
    by (simp add: not_less)
  show ?thesis
    by (simp add: MB_IS_COIL_ON_def MB_TURN_COIL_ON_def MB_TURN_COIL_OFF_def hi lo)
qed

theorem coil_out_of_range_noop_witness:
  "(32 :: 16 word) \<le> 40 \<and>
   \<not> MB_IS_COIL_ON 40
       \<lparr>coils_bank0 = 0xFFFF, coils_bank1 = 0xFFFF, discrete_inputs = 0,
        outputs_enabled = False, gpio_out = (\<lambda>_. False), gpio_in = (\<lambda>_. False)\<rparr> \<and>
   MB_TURN_COIL_ON 40
       \<lparr>coils_bank0 = 0, coils_bank1 = 0, discrete_inputs = 0,
        outputs_enabled = False, gpio_out = (\<lambda>_. False), gpio_in = (\<lambda>_. False)\<rparr> =
       \<lparr>coils_bank0 = 0, coils_bank1 = 0, discrete_inputs = 0,
        outputs_enabled = False, gpio_out = (\<lambda>_. False), gpio_in = (\<lambda>_. False)\<rparr> \<and>
   MB_TURN_COIL_OFF 40
       \<lparr>coils_bank0 = 0xFFFF, coils_bank1 = 0xFFFF, discrete_inputs = 0,
        outputs_enabled = False, gpio_out = (\<lambda>_. False), gpio_in = (\<lambda>_. False)\<rparr> =
       \<lparr>coils_bank0 = 0xFFFF, coils_bank1 = 0xFFFF, discrete_inputs = 0,
        outputs_enabled = False, gpio_out = (\<lambda>_. False), gpio_in = (\<lambda>_. False)\<rparr>"
proof -
  have h: "(32 :: 16 word) \<le> 40" by simp
  show ?thesis
    using h coil_out_of_range_noop [OF h] by simp
qed

section \<open>The output loops in closed form\<close>

lemma channels_upt: "[0..<ESP32_RIO_NUM_IO_CHANNELS] = [0, 1, 2, 3, 4, 5, 6, 7, 8, 9]"
  by (simp add: ESP32_RIO_NUM_IO_CHANNELS_def upt_rec)

lemma unat_coil_addr: "i < 65536 \<Longrightarrow> unat (of_nat i :: 16 word) = i"
  by (simp add: unat_of_nat)

lemma MB_IS_COIL_ON_bank0:
  "i < 16 \<Longrightarrow> MB_IS_COIL_ON (of_nat i) s = bit (coils_bank0 s) i"
  by (simp add: MB_IS_COIL_ON_def word_less_nat_alt unat_coil_addr coil_test_bit
      del: push_bit_of_1)

lemma MB_IS_COIL_ON_bank1:
  "i < 16 \<Longrightarrow> MB_IS_COIL_ON (of_nat (i + 16)) s = bit (coils_bank1 s) i"
proof -
  assume i: "i < 16"
  then have u: "unat (of_nat (i + 16) :: 16 word) = i + 16"
    by (simp add: unat_coil_addr del: of_nat_add)
  have le: "(16 :: 16 word) \<le> of_nat (i + 16)"
    by (simp add: word_le_nat_alt u del: of_nat_add)
  have "unat (of_nat (i + 16) - 16 :: 16 word) = i"
    using unat_sub [OF le] by (simp add: u del: of_nat_add)
  then show ?thesis
    using i le by (simp add: MB_IS_COIL_ON_def word_less_nat_alt u coil_test_bit
        del: of_nat_add push_bit_of_1)
qed

lemma update_digital_outputs_body_eq:
  "i < 10 \<Longrightarrow> update_digital_outputs_body i s =
     Some (s\<lparr>gpio_out := (gpio_out s)(DQ0 ! i := bit (coils_bank0 s) i,
                                       DQ1 ! i := bit (coils_bank1 s) i)\<rparr>)"
  by (simp add: update_digital_outputs_body_def MB_IS_COIL_ON_bank0 MB_IS_COIL_ON_bank1
      esp32_rio_turn_output_on_def esp32_rio_turn_output_off_def gpio_set_level_def
      DQ0_def DQ1_def del: of_nat_add)

lemma update_digital_outputs_eq:
  "update_digital_outputs s =
     Some (s\<lparr>gpio_out := (gpio_out s)
       (10 := bit (coils_bank0 s) 0, 46 := bit (coils_bank1 s) 0,
        12 := bit (coils_bank0 s) 1, 11 := bit (coils_bank1 s) 1,
        14 := bit (coils_bank0 s) 2, 13 := bit (coils_bank1 s) 2,
        47 := bit (coils_bank0 s) 3, 21 := bit (coils_bank1 s) 3,
        39 := bit (coils_bank0 s) 4, 48 := bit (coils_bank1 s) 4,
        40 := bit (coils_bank0 s) 5, 45 := bit (coils_bank1 s) 5,
        41 := bit (coils_bank0 s) 6, 35 := bit (coils_bank1 s) 6,
        42 := bit (coils_bank0 s) 7, 36 := bit (coils_bank1 s) 7,
        2 := bit (coils_bank0 s) 8, 37 := bit (coils_bank1 s) 8,
        1 := bit (coils_bank0 s) 9, 38 := bit (coils_bank1 s) 9)\<rparr>)"
  by (simp add: update_digital_outputs_def channels_upt update_digital_outputs_body_eq DQ0_def DQ1_def)

lemma esp32_rio_disable_outputs_eq:
  "esp32_rio_disable_outputs s =
     s\<lparr>gpio_out := (gpio_out s)
       (10 := False, 46 := False, 12 := False, 11 := False, 14 := False, 13 := False,
        47 := False, 21 := False, 39 := False, 48 := False, 40 := False, 45 := False,
        41 := False, 35 := False, 42 := False, 36 := False, 2 := False, 37 := False,
        1 := False, 38 := False)\<rparr>"
  by (simp add: esp32_rio_disable_outputs_def channels_upt gpio_set_level_def DQ0_def DQ1_def)

lemma all_channels:
  "(\<forall>k<ESP32_RIO_NUM_IO_CHANNELS. P k) =
     (P 0 \<and> P 1 \<and> P 2 \<and> P 3 \<and> P 4 \<and> P 5 \<and> P 6 \<and> P 7 \<and> P 8 \<and> P 9)"
proof -
  have "{..<ESP32_RIO_NUM_IO_CHANNELS} = set [0..<ESP32_RIO_NUM_IO_CHANNELS]" by auto
  also have "\<dots> = {0, 1, 2, 3, 4, 5, 6, 7, 8, 9}" by (simp add: channels_upt)
  finally have "(\<forall>k<ESP32_RIO_NUM_IO_CHANNELS. P k) = (\<forall>k\<in>{0, 1, 2, 3, 4, 5, 6, 7, 8, 9}. P k)"
    by (metis lessThan_iff)
  then show ?thesis by simp
qed

lemma MB_IS_COIL_ON_oe:
  "MB_IS_COIL_ON (of_nat OE_COIL_ADDR) s = bit (coils_bank1 s) 15"
  using MB_IS_COIL_ON_bank1 [of 15 s] by (simp add: OE_COIL_ADDR_def)

lemma oe_addr_bank1:
  "\<not> (of_nat OE_COIL_ADDR :: 16 word) < 16 \<and> (16 :: 16 word) \<le> of_nat OE_COIL_ADDR \<and>
   (of_nat OE_COIL_ADDR :: 16 word) < 32 \<and> unat (of_nat OE_COIL_ADDR - 16 :: 16 word) = 15"
  by (simp add: OE_COIL_ADDR_def)

lemma MB_TURN_COIL_ON_oe:
  "MB_TURN_COIL_ON (of_nat OE_COIL_ADDR) s =
     s\<lparr>coils_bank1 := ucast (ucast (coils_bank1 s) OR push_bit 15 (1 :: 32 word))\<rparr>"
  by (simp add: MB_TURN_COIL_ON_def oe_addr_bank1 del: push_bit_of_1)

lemma MB_TURN_COIL_OFF_oe:
  "MB_TURN_COIL_OFF (of_nat OE_COIL_ADDR) s =
     s\<lparr>coils_bank1 := ucast (ucast (coils_bank1 s) AND NOT (push_bit 15 (1 :: 64 word)))\<rparr>"
  by (simp add: MB_TURN_COIL_OFF_def oe_addr_bank1 del: push_bit_of_1)

lemma outputs_mirror_coils_iff:
  "outputs_mirror_coils s =
     (\<forall>k<ESP32_RIO_NUM_IO_CHANNELS.
        gpio_out s (DQ0 ! k) = bit (coils_bank0 s) k \<and>
        gpio_out s (DQ1 ! k) = bit (coils_bank1 s) k)"
  by (simp add: outputs_mirror_coils_def ESP32_RIO_NUM_IO_CHANNELS_def
      MB_IS_COIL_ON_bank0 MB_IS_COIL_ON_bank1 del: of_nat_add)

lemma update_digital_outputs_mirror:
  "\<exists>t. update_digital_outputs s = Some t \<and> outputs_mirror_coils t \<and>
       coils_bank0 t = coils_bank0 s \<and> coils_bank1 t = coils_bank1 s \<and>
       discrete_inputs t = discrete_inputs s \<and> outputs_enabled t = outputs_enabled s \<and>
       gpio_in t = gpio_in s \<and> gpio_out t STATUS_LED = gpio_out s STATUS_LED"
  by (simp add: update_digital_outputs_eq outputs_mirror_coils_iff all_channels
      DQ0_def DQ1_def STATUS_LED_def)

lemma disable_outputs_off:
  "all_outputs_off (esp32_rio_disable_outputs s)"
  by (simp add: esp32_rio_disable_outputs_eq all_outputs_off_def all_channels DQ0_def DQ1_def)

section \<open>The interlock controller\<close>

lemma led_frame:
  "coils_bank0 (esp32_rio_turn_status_led_on s) = coils_bank0 s"
  "coils_bank1 (esp32_rio_turn_status_led_on s) = coils_bank1 s"
  "outputs_enabled (esp32_rio_turn_status_led_on s) = outputs_enabled s"
  "coils_bank0 (esp32_rio_turn_status_led_off s) = coils_bank0 s"
  "coils_bank1 (esp32_rio_turn_status_led_off s) = coils_bank1 s"
  "outputs_enabled (esp32_rio_turn_status_led_off s) = outputs_enabled s"
  "gpio_out (esp32_rio_turn_status_led_on s) = (gpio_out s)(STATUS_LED := True)"
  "gpio_out (esp32_rio_turn_status_led_off s) = (gpio_out s)(STATUS_LED := False)"
  by (simp_all add: esp32_rio_turn_status_led_on_def esp32_rio_turn_status_led_off_def
      gpio_set_level_def)

lemma oe_on_frame:
  "coils_bank0 (MB_TURN_COIL_ON (of_nat OE_COIL_ADDR) s) = coils_bank0 s"
  "outputs_enabled (MB_TURN_COIL_ON (of_nat OE_COIL_ADDR) s) = outputs_enabled s"
  "gpio_out (MB_TURN_COIL_ON (of_nat OE_COIL_ADDR) s) = gpio_out s"
  "bit (coils_bank1 (MB_TURN_COIL_ON (of_nat OE_COIL_ADDR) s)) k =
     (k < 16 \<and> (k = 15 \<or> bit (coils_bank1 s) k))"
  by (simp_all add: MB_TURN_COIL_ON_oe coil_set_bit del: push_bit_of_1)

lemma oe_off_frame:
  "coils_bank0 (MB_TURN_COIL_OFF (of_nat OE_COIL_ADDR) s) = coils_bank0 s"
  "outputs_enabled (MB_TURN_COIL_OFF (of_nat OE_COIL_ADDR) s) = outputs_enabled s"
  "gpio_out (MB_TURN_COIL_OFF (of_nat OE_COIL_ADDR) s) = gpio_out s"
  "bit (coils_bank1 (MB_TURN_COIL_OFF (of_nat OE_COIL_ADDR) s)) k =
     (k \<noteq> 15 \<and> bit (coils_bank1 s) k)"
  by (simp_all add: MB_TURN_COIL_OFF_oe coil_clear_bit del: push_bit_of_1)

lemma led_not_output:
  "k < ESP32_RIO_NUM_IO_CHANNELS \<Longrightarrow> DQ0 ! k \<noteq> STATUS_LED \<and> DQ1 ! k \<noteq> STATUS_LED"
  using all_channels [of "\<lambda>k. DQ0 ! k \<noteq> STATUS_LED \<and> DQ1 ! k \<noteq> STATUS_LED"]
  by (simp add: DQ0_def DQ1_def STATUS_LED_def)

lemma all_outputs_off_led:
  "all_outputs_off (s\<lparr>gpio_out := (gpio_out s)(STATUS_LED := v)\<rparr>) = all_outputs_off s"
  by (auto simp add: all_outputs_off_def led_not_output)

lemma disable_frame:
  "coils_bank0 (esp32_rio_disable_outputs s) = coils_bank0 s"
  "coils_bank1 (esp32_rio_disable_outputs s) = coils_bank1 s"
  "outputs_enabled (esp32_rio_disable_outputs s) = outputs_enabled s"
  "gpio_out (esp32_rio_disable_outputs s) STATUS_LED = gpio_out s STATUS_LED"
  by (simp_all add: esp32_rio_disable_outputs_eq STATUS_LED_def)

lemma toggle_from_enabled:
  assumes "outputs_enabled s"
  shows "\<exists>t. on_oe_button_toggle s = Some t \<and> \<not> outputs_enabled t \<and>
           \<not> bit (coils_bank1 t) 15 \<and> all_outputs_off t \<and> \<not> gpio_out t STATUS_LED \<and>
           coils_bank0 t = coils_bank0 s"
proof -
  let ?u = "MB_TURN_COIL_OFF (of_nat OE_COIL_ADDR) (s\<lparr>outputs_enabled := False\<rparr>)"
  let ?t = "esp32_rio_turn_status_led_off (esp32_rio_disable_outputs ?u)"
  have run: "on_oe_button_toggle s = Some ?t"
    using assms by (simp add: on_oe_button_toggle_def)
  have off: "all_outputs_off ?t"
    using disable_outputs_off [of ?u]
    by (simp add: all_outputs_off_def led_not_output led_frame)
  have frame: "coils_bank0 ?t = coils_bank0 s" "\<not> bit (coils_bank1 ?t) 15"
    "\<not> outputs_enabled ?t" "\<not> gpio_out ?t STATUS_LED"
    by (simp_all add: led_frame disable_frame oe_off_frame)
  with run off show ?thesis
    by simp
qed

lemma toggle_from_disabled:
  assumes "\<not> outputs_enabled s"
  shows "\<exists>t. on_oe_button_toggle s = Some t \<and> outputs_enabled t \<and>
           bit (coils_bank1 t) 15 \<and> outputs_mirror_coils t \<and> gpio_out t STATUS_LED \<and>
           coils_bank0 t = coils_bank0 s"
proof -
  obtain u where u: "update_digital_outputs s = Some u" "outputs_mirror_coils u"
      "coils_bank0 u = coils_bank0 s" "coils_bank1 u = coils_bank1 s"
    using update_digital_outputs_mirror [of s] by blast
  let ?t = "esp32_rio_turn_status_led_on
              (MB_TURN_COIL_ON (of_nat OE_COIL_ADDR) (u\<lparr>outputs_enabled := True\<rparr>))"
  have run: "on_oe_button_toggle s = Some ?t"
    using assms u(1) by (simp add: on_oe_button_toggle_def)
  have "outputs_mirror_coils ?t"
    using u(2)
    by (simp add: outputs_mirror_coils_iff led_frame oe_on_frame led_not_output
        ESP32_RIO_NUM_IO_CHANNELS_def)
  moreover have "coils_bank0 ?t = coils_bank0 s" "outputs_enabled ?t" "gpio_out ?t STATUS_LED"
    "bit (coils_bank1 ?t) 15"
    using u(3) by (simp_all add: led_frame oe_on_frame)
  ultimately show ?thesis
    using run by simp
qed

lemma pass_disable:
  assumes "coil_write_event ty" "outputs_enabled s" "\<not> bit (coils_bank1 s) 15"
  shows "\<exists>t. mb_slave_run_pass ty s = Some t \<and> \<not> outputs_enabled t \<and> all_outputs_off t \<and>
           \<not> gpio_out t STATUS_LED \<and> coils_bank0 t = coils_bank0 s \<and>
           coils_bank1 t = coils_bank1 s"
proof -
  let ?t = "esp32_rio_turn_status_led_off ((esp32_rio_disable_outputs s)\<lparr>outputs_enabled := False\<rparr>)"
  have "mb_slave_run_pass ty s = Some ?t"
    using assms by (simp add: mb_slave_run_pass_def coil_write_event_def MB_IS_COIL_ON_oe)
  moreover have "all_outputs_off ?t"
    using disable_outputs_off [of s]
    by (simp add: all_outputs_off_def led_not_output led_frame)
  moreover have "\<not> outputs_enabled ?t" "\<not> gpio_out ?t STATUS_LED"
      "coils_bank0 ?t = coils_bank0 s" "coils_bank1 ?t = coils_bank1 s"
    by (simp_all add: led_frame disable_frame)
  ultimately show ?thesis
    by simp
qed

lemma pass_remirror:
  assumes "coil_write_event ty" "outputs_enabled s" "bit (coils_bank1 s) 15"
  shows "\<exists>t. mb_slave_run_pass ty s = Some t \<and> outputs_enabled t \<and> outputs_mirror_coils t \<and>
           gpio_out t STATUS_LED = gpio_out s STATUS_LED \<and>
           coils_bank0 t = coils_bank0 s \<and> coils_bank1 t = coils_bank1 s"
proof -
  have "mb_slave_run_pass ty s = update_digital_outputs s"
    using assms by (simp add: mb_slave_run_pass_def coil_write_event_def MB_IS_COIL_ON_oe)
  then show ?thesis
    using update_digital_outputs_mirror [of s] assms(2) by auto
qed

lemma pass_enable:
  assumes "coil_write_event ty" "\<not> outputs_enabled s" "bit (coils_bank1 s) 15"
  shows "\<exists>t. mb_slave_run_pass ty s = Some t \<and> outputs_enabled t \<and> outputs_mirror_coils t \<and>
           gpio_out t STATUS_LED \<and>
           coils_bank0 t = coils_bank0 s \<and> coils_bank1 t = coils_bank1 s"
proof -
  obtain u where u: "update_digital_outputs s = Some u" "outputs_mirror_coils u"
      "coils_bank0 u = coils_bank0 s" "coils_bank1 u = coils_bank1 s"
    using update_digital_outputs_mirror [of s] by blast
  let ?t = "esp32_rio_turn_status_led_on (u\<lparr>outputs_enabled := True\<rparr>)"
  have "mb_slave_run_pass ty s = Some ?t"
    using assms u(1) by (simp add: mb_slave_run_pass_def coil_write_event_def MB_IS_COIL_ON_oe)
  moreover have "outputs_mirror_coils ?t"
    using u(2)
    by (simp add: outputs_mirror_coils_iff led_frame led_not_output
        ESP32_RIO_NUM_IO_CHANNELS_def)
  moreover have "outputs_enabled ?t" "gpio_out ?t STATUS_LED"
      "coils_bank0 ?t = coils_bank0 s" "coils_bank1 ?t = coils_bank1 s"
    using u(3,4) by (simp_all add: led_frame)
  ultimately show ?thesis
    by simp
qed

lemma pass_idle:
  assumes "\<not> outputs_enabled s" "\<not> bit (coils_bank1 s) 15"
  shows "mb_slave_run_pass ty s = Some s"
  using assms by (simp add: mb_slave_run_pass_def MB_IS_COIL_ON_oe)

lemma pass_read:
  assumes "\<not> coil_write_event ty"
  shows "mb_slave_run_pass ty s = Some s"
  using assms by (auto simp add: mb_slave_run_pass_def coil_write_event_def)

lemma setup_reg_data_body_frame:
  assumes "i < ESP32_RIO_NUM_IO_CHANNELS"
  shows "\<exists>t. setup_reg_data_body i s = Some t \<and> coils_bank0 t = coils_bank0 s \<and>
           coils_bank1 t = coils_bank1 s \<and> outputs_enabled t = outputs_enabled s \<and>
           gpio_out t = gpio_out s \<and> gpio_in t = gpio_in s"
  using assms
  by (simp add: setup_reg_data_body_def esp32_rio_is_input_on_def DI_def
      ESP32_RIO_NUM_IO_CHANNELS_def)

lemma setup_reg_data_fold_frame:
  assumes "\<forall>i\<in>set xs. i < ESP32_RIO_NUM_IO_CHANNELS"
  shows "\<exists>t. fold (\<lambda>i r. Option.bind r (setup_reg_data_body i)) xs (Some s) = Some t \<and>
           coils_bank0 t = coils_bank0 s \<and> coils_bank1 t = coils_bank1 s \<and>
           outputs_enabled t = outputs_enabled s \<and> gpio_out t = gpio_out s \<and>
           gpio_in t = gpio_in s"
  using assms
proof (induction xs arbitrary: s)
  case Nil
  then show ?case by simp
next
  case (Cons i xs)
  then have "i < ESP32_RIO_NUM_IO_CHANNELS" by simp
  from setup_reg_data_body_frame [OF this, of s] obtain u where
    u: "setup_reg_data_body i s = Some u" "coils_bank0 u = coils_bank0 s"
       "coils_bank1 u = coils_bank1 s" "outputs_enabled u = outputs_enabled s"
       "gpio_out u = gpio_out s" "gpio_in u = gpio_in s"
    by blast
  from Cons.prems have "\<forall>i\<in>set xs. i < ESP32_RIO_NUM_IO_CHANNELS" by simp
  from Cons.IH [OF this, of u] u show ?case
    by simp
qed

lemma esp32_rio_configure_gpio_eq:
  "esp32_rio_configure_gpio s =
     esp32_rio_disable_outputs (esp32_rio_turn_status_led_off s)"
  by (simp add: esp32_rio_configure_gpio_def esp32_rio_disable_outputs_def
      esp32_rio_turn_status_led_off_def)

section \<open>The main task statement by statement\<close>

lemma sys_run_append:
  "sys_run (xs @ ys) st = Option.bind (sys_run xs st) (sys_run ys)"
  by (induction xs arbitrary: st) (auto split: Option.bind_split)

lemma wait_steps:
  "sys_run (replicate n MAIN_TASK_STEP) (AT_WAIT, s) = Some (AT_WAIT, s)"
  by (induction n) simp_all

lemma update_step_bank0:
  "i < ESP32_RIO_NUM_IO_CHANNELS \<Longrightarrow>
   mb_slave_run_step (AT_UPDATE i 0 en) s =
     Some (AT_UPDATE i 1 en, s\<lparr>gpio_out := (gpio_out s)(DQ0 ! i := bit (coils_bank0 s) i)\<rparr>)"
  by (simp add: ESP32_RIO_NUM_IO_CHANNELS_def MB_IS_COIL_ON_bank0 esp32_rio_turn_output_on_def
      esp32_rio_turn_output_off_def gpio_set_level_def DQ0_def)

lemma update_step_bank1:
  "i < ESP32_RIO_NUM_IO_CHANNELS \<Longrightarrow>
   mb_slave_run_step (AT_UPDATE i (Suc 0) en) s =
     Some (AT_UPDATE (Suc i) 0 en, s\<lparr>gpio_out := (gpio_out s)(DQ1 ! i := bit (coils_bank1 s) i)\<rparr>)"
  by (simp add: ESP32_RIO_NUM_IO_CHANNELS_def MB_IS_COIL_ON_bank1 esp32_rio_turn_output_on_def
      esp32_rio_turn_output_off_def gpio_set_level_def DQ1_def del: of_nat_add)

lemma update_step_exit:
  "mb_slave_run_step (AT_UPDATE ESP32_RIO_NUM_IO_CHANNELS bank en) s =
     Some (if en then AT_SET_ENABLED else AT_WAIT, s)"
  by simp

lemma main_steps_21:
  "replicate 21 MAIN_TASK_STEP =
     [MAIN_TASK_STEP, MAIN_TASK_STEP, MAIN_TASK_STEP, MAIN_TASK_STEP, MAIN_TASK_STEP,
      MAIN_TASK_STEP, MAIN_TASK_STEP, MAIN_TASK_STEP, MAIN_TASK_STEP, MAIN_TASK_STEP,
      MAIN_TASK_STEP, MAIN_TASK_STEP, MAIN_TASK_STEP, MAIN_TASK_STEP, MAIN_TASK_STEP,
      MAIN_TASK_STEP, MAIN_TASK_STEP, MAIN_TASK_STEP, MAIN_TASK_STEP, MAIN_TASK_STEP,
      MAIN_TASK_STEP]"
  by (simp add: eval_nat_numeral)

lemma update_channel:
  assumes "i < ESP32_RIO_NUM_IO_CHANNELS"
  shows "sys_run (MAIN_TASK_STEP # MAIN_TASK_STEP # evs) (AT_UPDATE i 0 en, s) =
         sys_run evs (AT_UPDATE (Suc i) 0 en,
           s\<lparr>gpio_out := (gpio_out s)(DQ0 ! i := bit (coils_bank0 s) i,
                                        DQ1 ! i := bit (coils_bank1 s) i)\<rparr>)"
  using assms by (simp add: update_step_bank0 update_step_bank1 del: mb_slave_run_step.simps)

lemma update_loop_from:
  assumes "i \<le> ESP32_RIO_NUM_IO_CHANNELS"
  shows "sys_run (replicate (2 * (ESP32_RIO_NUM_IO_CHANNELS - i)) MAIN_TASK_STEP @ evs)
           (AT_UPDATE i 0 en, s) =
         Option.bind
           (fold (\<lambda>j r. Option.bind r (update_digital_outputs_body j))
              [i..<ESP32_RIO_NUM_IO_CHANNELS] (Some s))
           (\<lambda>t. sys_run evs (AT_UPDATE ESP32_RIO_NUM_IO_CHANNELS 0 en, t))"
  using assms
proof (induction "ESP32_RIO_NUM_IO_CHANNELS - i" arbitrary: i s)
  case 0
  then show ?case by simp
next
  case (Suc k)
  then have i: "i < ESP32_RIO_NUM_IO_CHANNELS" and k: "k = ESP32_RIO_NUM_IO_CHANNELS - Suc i"
    and le: "Suc i \<le> ESP32_RIO_NUM_IO_CHANNELS"
    by simp_all
  let ?t = "s\<lparr>gpio_out := (gpio_out s)(DQ0 ! i := bit (coils_bank0 s) i,
                                       DQ1 ! i := bit (coils_bank1 s) i)\<rparr>"
  from i have body: "update_digital_outputs_body i s = Some ?t"
    by (simp add: update_digital_outputs_body_eq ESP32_RIO_NUM_IO_CHANNELS_def)
  have steps: "replicate (2 * (ESP32_RIO_NUM_IO_CHANNELS - i)) MAIN_TASK_STEP =
      MAIN_TASK_STEP # MAIN_TASK_STEP #
      replicate (2 * (ESP32_RIO_NUM_IO_CHANNELS - Suc i)) MAIN_TASK_STEP"
    using Suc.hyps(2) [symmetric] k by simp
  have "sys_run (replicate (2 * (ESP32_RIO_NUM_IO_CHANNELS - i)) MAIN_TASK_STEP @ evs)
           (AT_UPDATE i 0 en, s) =
        sys_run (replicate (2 * (ESP32_RIO_NUM_IO_CHANNELS - Suc i)) MAIN_TASK_STEP @ evs)
           (AT_UPDATE (Suc i) 0 en, ?t)"
    unfolding steps using update_channel [OF i] by simp
  also have "\<dots> = Option.bind
           (fold (\<lambda>j r. Option.bind r (update_digital_outputs_body j))
              [Suc i..<ESP32_RIO_NUM_IO_CHANNELS] (Some ?t))
           (\<lambda>t. sys_run evs (AT_UPDATE ESP32_RIO_NUM_IO_CHANNELS 0 en, t))"
    by (rule Suc.hyps(1) [OF k le])
  also have "\<dots> = Option.bind
           (fold (\<lambda>j r. Option.bind r (update_digital_outputs_body j))
              [i..<ESP32_RIO_NUM_IO_CHANNELS] (Some s))
           (\<lambda>t. sys_run evs (AT_UPDATE ESP32_RIO_NUM_IO_CHANNELS 0 en, t))"
    using i by (simp add: upt_conv_Cons body)
  finally show ?case .
qed

lemma uninterrupted_update:
  "sys_run (replicate 21 MAIN_TASK_STEP @ evs) (AT_UPDATE 0 0 en, s) =
     Option.bind (update_digital_outputs s)
       (\<lambda>t. sys_run evs (if en then AT_SET_ENABLED else AT_WAIT, t))"
proof -
  have "(21 :: nat) = 2 * (ESP32_RIO_NUM_IO_CHANNELS - 0) + 1"
    by (simp add: ESP32_RIO_NUM_IO_CHANNELS_def)
  then have "replicate 21 MAIN_TASK_STEP @ evs =
      replicate (2 * (ESP32_RIO_NUM_IO_CHANNELS - 0)) MAIN_TASK_STEP @ (MAIN_TASK_STEP # evs)"
    by (simp only: replicate_add) simp
  then show ?thesis
    using update_loop_from [of 0 "MAIN_TASK_STEP # evs" en s]
    by (simp add: update_digital_outputs_def update_step_exit del: mb_slave_run_step.simps
        cong: Option.bind_cong)
qed

lemma wait_steps_then:
  "sys_run (replicate n MAIN_TASK_STEP @ evs) (AT_WAIT, s) = sys_run evs (AT_WAIT, s)"
  by (induction n) simp_all

lemma main_steps_25:
  "replicate 25 MAIN_TASK_STEP @ evs =
     MAIN_TASK_STEP # MAIN_TASK_STEP #
     replicate 21 MAIN_TASK_STEP @ (MAIN_TASK_STEP # MAIN_TASK_STEP # evs)"
proof -
  have "(25 :: nat) = 1 + (1 + (21 + (1 + 1)))"
    by simp
  then show ?thesis
    by (simp only: replicate_add) simp
qed

lemma main_steps_25_idle:
  "replicate 25 MAIN_TASK_STEP @ evs =
     MAIN_TASK_STEP # MAIN_TASK_STEP # replicate 23 MAIN_TASK_STEP @ evs"
proof -
  have "(25 :: nat) = 1 + (1 + 23)"
    by simp
  then show ?thesis
    by (simp only: replicate_add) simp
qed

lemma main_steps_25_disable:
  "replicate 25 MAIN_TASK_STEP @ evs =
     MAIN_TASK_STEP # MAIN_TASK_STEP # MAIN_TASK_STEP # MAIN_TASK_STEP # MAIN_TASK_STEP #
     replicate 20 MAIN_TASK_STEP @ evs"
proof -
  have "(25 :: nat) = 1 + (1 + (1 + (1 + (1 + 20))))"
    by simp
  then show ?thesis
    by (simp only: replicate_add) simp
qed

lemma uninterrupted_pass:
  "sys_run (COILS_WR_REPORTED # replicate 25 MAIN_TASK_STEP @ evs) (AT_WAIT, s) =
     Option.bind (mb_slave_run_pass {MB_EVENT_COILS_WR} s) (\<lambda>t. sys_run evs (AT_WAIT, t))"
proof (cases "outputs_enabled s")
  case en: True
  show ?thesis
  proof (cases "MB_IS_COIL_ON (of_nat OE_COIL_ADDR) s")
    case True
    have "sys_run (COILS_WR_REPORTED # replicate 25 MAIN_TASK_STEP @ evs) (AT_WAIT, s) =
        sys_run (replicate 21 MAIN_TASK_STEP @ (MAIN_TASK_STEP # MAIN_TASK_STEP # evs))
          (AT_UPDATE 0 0 False, s)"
      using en True by (simp add: main_steps_25)
    also have "\<dots> = Option.bind (update_digital_outputs s) (\<lambda>t. sys_run evs (AT_WAIT, t))"
      by (simp add: uninterrupted_update cong: Option.bind_cong)
    finally show ?thesis
      using en True by (simp add: mb_slave_run_pass_def)
  next
    case False
    have "sys_run (COILS_WR_REPORTED # replicate 25 MAIN_TASK_STEP @ evs) (AT_WAIT, s) =
        sys_run (replicate 20 MAIN_TASK_STEP @ evs)
          (AT_WAIT, esp32_rio_turn_status_led_off
                      ((esp32_rio_disable_outputs s)\<lparr>outputs_enabled := False\<rparr>))"
      using en False by (simp add: main_steps_25_disable)
    then show ?thesis
      using en False by (simp add: wait_steps_then mb_slave_run_pass_def)
  qed
next
  case dis: False
  show ?thesis
  proof (cases "MB_IS_COIL_ON (of_nat OE_COIL_ADDR) s")
    case True
    have "sys_run (COILS_WR_REPORTED # replicate 25 MAIN_TASK_STEP @ evs) (AT_WAIT, s) =
        sys_run (replicate 21 MAIN_TASK_STEP @ (MAIN_TASK_STEP # MAIN_TASK_STEP # evs))
          (AT_UPDATE 0 0 True, s)"
      using dis True by (simp add: main_steps_25)
    also have "\<dots> = Option.bind (update_digital_outputs s)
        (\<lambda>t. sys_run evs (AT_WAIT, esp32_rio_turn_status_led_on (t\<lparr>outputs_enabled := True\<rparr>)))"
      by (simp add: uninterrupted_update cong: Option.bind_cong)
    finally show ?thesis
      using dis True by (simp add: mb_slave_run_pass_def)
  next
    case False
    have "sys_run (COILS_WR_REPORTED # replicate 25 MAIN_TASK_STEP @ evs) (AT_WAIT, s) =
        sys_run (replicate 23 MAIN_TASK_STEP @ evs) (AT_WAIT, s)"
      using dis False by (simp add: main_steps_25_idle)
    then show ?thesis
      using dis False by (simp add: wait_steps_then mb_slave_run_pass_def)
  qed
qed

lemma setup_reg_data_frame:
  "\<exists>t. setup_reg_data s = Some t \<and> coils_bank0 t = 0 \<and> coils_bank1 t = 0 \<and>
       outputs_enabled t = outputs_enabled s \<and> gpio_out t = gpio_out s \<and> gpio_in t = gpio_in s"
proof -
  have "\<forall>i\<in>set [0..<ESP32_RIO_NUM_IO_CHANNELS]. i < ESP32_RIO_NUM_IO_CHANNELS"
    by simp
  from setup_reg_data_fold_frame [OF this, of "s\<lparr>coils_bank0 := 0, coils_bank1 := 0\<rparr>"]
  show ?thesis
    by (auto simp add: setup_reg_data_def)
qed

lemma configured_state:
  "all_outputs_off (esp32_rio_configure_gpio (static_init g e))"
  "\<not> gpio_out (esp32_rio_configure_gpio (static_init g e)) STATUS_LED"
  "\<not> outputs_enabled (esp32_rio_configure_gpio (static_init g e))"
  "coils_bank0 (esp32_rio_configure_gpio (static_init g e)) = 0"
  "coils_bank1 (esp32_rio_configure_gpio (static_init g e)) = 0"
  by (simp_all add: esp32_rio_configure_gpio_eq disable_outputs_off disable_frame led_frame
      static_init_def)

lemma startup_no_press:
  "\<exists>s0. app_main_startup g e 0 = Some s0 \<and> coils_bank0 s0 = 0 \<and> coils_bank1 s0 = 0 \<and>
        \<not> outputs_enabled s0 \<and> all_outputs_off s0 \<and> \<not> gpio_out s0 STATUS_LED"
  using setup_reg_data_frame [of "esp32_rio_configure_gpio (static_init g e)"]
    configured_state [of g e]
  by (auto simp add: app_main_startup_def all_outputs_off_def)

lemma startup_one_press:
  "\<exists>s0. app_main_startup g e (Suc 0) = Some s0 \<and> coils_bank0 s0 = 0 \<and> coils_bank1 s0 = 0 \<and>
        outputs_enabled s0 \<and> gpio_out s0 STATUS_LED"
proof -
  let ?c = "esp32_rio_configure_gpio (static_init g e)"
  from toggle_from_disabled [OF configured_state(3) [of g e]] obtain t where
    t: "on_oe_button_toggle ?c = Some t" "outputs_enabled t" "gpio_out t STATUS_LED"
    by blast
  from setup_reg_data_frame [of t] t show ?thesis
    by (auto simp add: app_main_startup_def)
qed

lemma later_channels_upt: "[Suc 0..<ESP32_RIO_NUM_IO_CHANNELS] = [1, 2, 3, 4, 5, 6, 7, 8, 9]"
  by (simp add: ESP32_RIO_NUM_IO_CHANNELS_def upt_rec)

lemma update_later_channels:
  "fold (\<lambda>j r. Option.bind r (update_digital_outputs_body j))
     [Suc 0..<ESP32_RIO_NUM_IO_CHANNELS] (Some s) =
   Some (s\<lparr>gpio_out := (gpio_out s)
       (12 := bit (coils_bank0 s) 1, 11 := bit (coils_bank1 s) 1,
        14 := bit (coils_bank0 s) 2, 13 := bit (coils_bank1 s) 2,
        47 := bit (coils_bank0 s) 3, 21 := bit (coils_bank1 s) 3,
        39 := bit (coils_bank0 s) 4, 48 := bit (coils_bank1 s) 4,
        40 := bit (coils_bank0 s) 5, 45 := bit (coils_bank1 s) 5,
        41 := bit (coils_bank0 s) 6, 35 := bit (coils_bank1 s) 6,
        42 := bit (coils_bank0 s) 7, 36 := bit (coils_bank1 s) 7,
        2 := bit (coils_bank0 s) 8, 37 := bit (coils_bank1 s) 8,
        1 := bit (coils_bank0 s) 9, 38 := bit (coils_bank1 s) 9)\<rparr>)"
  by (simp add: later_channels_upt update_digital_outputs_body_eq DQ0_def DQ1_def)

lemma resumed_update:
  "sys_run (replicate 20 MAIN_TASK_STEP) (AT_UPDATE 0 1 False, s) =
   Some (AT_WAIT, s\<lparr>gpio_out := (gpio_out s)
       (46 := bit (coils_bank1 s) 0,
        12 := bit (coils_bank0 s) 1, 11 := bit (coils_bank1 s) 1,
        14 := bit (coils_bank0 s) 2, 13 := bit (coils_bank1 s) 2,
        47 := bit (coils_bank0 s) 3, 21 := bit (coils_bank1 s) 3,
        39 := bit (coils_bank0 s) 4, 48 := bit (coils_bank1 s) 4,
        40 := bit (coils_bank0 s) 5, 45 := bit (coils_bank1 s) 5,
        41 := bit (coils_bank0 s) 6, 35 := bit (coils_bank1 s) 6,
        42 := bit (coils_bank0 s) 7, 36 := bit (coils_bank1 s) 7,
        2 := bit (coils_bank0 s) 8, 37 := bit (coils_bank1 s) 8,
        1 := bit (coils_bank0 s) 9, 38 := bit (coils_bank1 s) 9)\<rparr>)"
proof -
  have "(20 :: nat) = 1 + (2 * (ESP32_RIO_NUM_IO_CHANNELS - Suc 0) + 1)"
    by (simp add: ESP32_RIO_NUM_IO_CHANNELS_def)
  then have steps: "replicate 20 MAIN_TASK_STEP =
      MAIN_TASK_STEP #
      replicate (2 * (ESP32_RIO_NUM_IO_CHANNELS - Suc 0)) MAIN_TASK_STEP @ [MAIN_TASK_STEP]"
    by (simp only: replicate_add) simp
  have first: "mb_slave_run_step (AT_UPDATE 0 (Suc 0) False) s =
      Some (AT_UPDATE (Suc 0) 0 False,
            s\<lparr>gpio_out := (gpio_out s)(DQ1 ! 0 := bit (coils_bank1 s) 0)\<rparr>)"
    by (rule update_step_bank1) (simp add: ESP32_RIO_NUM_IO_CHANNELS_def)
  have le: "Suc 0 \<le> ESP32_RIO_NUM_IO_CHANNELS"
    by (simp add: ESP32_RIO_NUM_IO_CHANNELS_def)
  show ?thesis
    unfolding steps
    using first
    by (simp add: update_loop_from [OF le] update_later_channels update_step_exit DQ1_def
        del: mb_slave_run_step.simps)
qed

section \<open>Interleavings that break the interlock and the mirror bit\<close>

text \<open>
  C1. Interlock safety fails on the code when the two tasks interleave. After a start-up
  without a press, run the schedule \<open>toggle_inside_update\<close>: the master writes all
  twenty output coils and coil 31 and the write is handled undisturbed; the master
  writes the same again, and the button is pressed while the main task is inside
  \<^verbatim>\<open>update_digital_outputs\<close>, after the statement for bank 0 of channel 0. The
  toggle disables the interlock and forces every line off; the main task then goes on
  with its loop and drives the remaining lines from the coil words. The run ends with
  the main task back at its wait, the interlock Disabled, coil 31 clear and the LED
  off, and with nineteen of the twenty output lines on.
\<close>

theorem interlock_broken_by_interleaving:
  "\<exists>s0 t. app_main_startup g e 0 = Some s0 \<and>
      sys_run toggle_inside_update (AT_WAIT, s0) = Some (AT_WAIT, t) \<and>
      \<not> outputs_enabled t \<and> \<not> MB_IS_COIL_ON (of_nat OE_COIL_ADDR) t \<and>
      \<not> gpio_out t STATUS_LED \<and> \<not> gpio_out t (DQ0 ! 0) \<and>
      gpio_out t (DQ0 ! 1) \<and> gpio_out t (DQ0 ! 2) \<and> gpio_out t (DQ0 ! 3) \<and>
      gpio_out t (DQ0 ! 4) \<and> gpio_out t (DQ0 ! 5) \<and> gpio_out t (DQ0 ! 6) \<and>
      gpio_out t (DQ0 ! 7) \<and> gpio_out t (DQ0 ! 8) \<and> gpio_out t (DQ0 ! 9) \<and>
      gpio_out t (DQ1 ! 0) \<and> gpio_out t (DQ1 ! 1) \<and> gpio_out t (DQ1 ! 2) \<and>
      gpio_out t (DQ1 ! 3) \<and> gpio_out t (DQ1 ! 4) \<and> gpio_out t (DQ1 ! 5) \<and>
      gpio_out t (DQ1 ! 6) \<and> gpio_out t (DQ1 ! 7) \<and> gpio_out t (DQ1 ! 8) \<and>
      gpio_out t (DQ1 ! 9)"
proof -
  obtain s0 where s0: "app_main_startup g e 0 = Some s0" "\<not> outputs_enabled s0"
    using startup_no_press [of g e] by blast
  let ?rest = "[MASTER_COIL_WRITE 0x03FF 0x83FF, COILS_WR_REPORTED,
      MAIN_TASK_STEP, MAIN_TASK_STEP, MAIN_TASK_STEP, TIMER_TASK_TOGGLE] @
     replicate 20 MAIN_TASK_STEP"
  let ?u0 = "s0\<lparr>coils_bank0 := 0x03FF, coils_bank1 := 0x83FF\<rparr>"
  have "coil_write_event {MB_EVENT_COILS_WR}" "\<not> outputs_enabled ?u0" "bit (coils_bank1 ?u0) 15"
    using s0(2) by (simp_all add: coil_write_event_def)
  from pass_enable [OF this] obtain t1 where
    t1: "mb_slave_run_pass {MB_EVENT_COILS_WR} ?u0 = Some t1" "outputs_enabled t1"
    by auto
  have phase1: "sys_run toggle_inside_update (AT_WAIT, s0) = sys_run ?rest (AT_WAIT, t1)"
    using uninterrupted_pass [of ?rest ?u0] t1(1)
    by (simp add: toggle_inside_update_def)
  let ?u1 = "t1\<lparr>coils_bank0 := 0x03FF, coils_bank1 := 0x83FF\<rparr>"
  let ?u2 = "?u1\<lparr>gpio_out := (gpio_out ?u1)(DQ0 ! 0 := bit (coils_bank0 ?u1) 0)\<rparr>"
  define v where "v = esp32_rio_turn_status_led_off
              (esp32_rio_disable_outputs
                (MB_TURN_COIL_OFF (of_nat OE_COIL_ADDR) (?u2\<lparr>outputs_enabled := False\<rparr>)))"
  have zero: "0 < ESP32_RIO_NUM_IO_CHANNELS"
    by (simp add: ESP32_RIO_NUM_IO_CHANNELS_def)
  have oe: "MB_IS_COIL_ON (of_nat OE_COIL_ADDR) ?u1"
    by (simp add: MB_IS_COIL_ON_oe)
  have toggle: "on_oe_button_toggle ?u2 = Some v"
    using t1(2) by (simp add: on_oe_button_toggle_def v_def)
  have phase2: "sys_run ?rest (AT_WAIT, t1) =
      sys_run (replicate 20 MAIN_TASK_STEP) (AT_UPDATE 0 1 False, v)"
    using t1(2) oe toggle update_step_bank0 [OF zero, of False ?u1]
    by (simp del: mb_slave_run_step.simps(7))
  have v: "\<not> outputs_enabled v" "coils_bank0 v = 0x03FF" "\<not> gpio_out v STATUS_LED"
    "\<And>k. bit (coils_bank1 v) k = (k \<noteq> 15 \<and> bit (0x83FF :: 16 word) k)"
    by (simp_all add: v_def led_frame disable_frame oe_off_frame)
  have off: "\<not> gpio_out v (DQ0 ! 0)"
    using disable_outputs_off
      [of "MB_TURN_COIL_OFF (of_nat OE_COIL_ADDR) (?u2\<lparr>outputs_enabled := False\<rparr>)"] zero
    by (simp add: v_def all_outputs_off_def led_frame led_not_output)
  define t where "t = v\<lparr>gpio_out := (gpio_out v)
       (46 := bit (coils_bank1 v) 0,
        12 := bit (coils_bank0 v) 1, 11 := bit (coils_bank1 v) 1,
        14 := bit (coils_bank0 v) 2, 13 := bit (coils_bank1 v) 2,
        47 := bit (coils_bank0 v) 3, 21 := bit (coils_bank1 v) 3,
        39 := bit (coils_bank0 v) 4, 48 := bit (coils_bank1 v) 4,
        40 := bit (coils_bank0 v) 5, 45 := bit (coils_bank1 v) 5,
        41 := bit (coils_bank0 v) 6, 35 := bit (coils_bank1 v) 6,
        42 := bit (coils_bank0 v) 7, 36 := bit (coils_bank1 v) 7,
        2 := bit (coils_bank0 v) 8, 37 := bit (coils_bank1 v) 8,
        1 := bit (coils_bank0 v) 9, 38 := bit (coils_bank1 v) 9)\<rparr>"
  have run: "sys_run toggle_inside_update (AT_WAIT, s0) = Some (AT_WAIT, t)"
    unfolding phase1 phase2 t_def by (rule resumed_update)
  have flags: "\<not> outputs_enabled t" "\<not> MB_IS_COIL_ON (of_nat OE_COIL_ADDR) t"
    using v(1) v(4) [of 15] by (simp_all add: t_def MB_IS_COIL_ON_oe)
  have led: "\<not> gpio_out t STATUS_LED"
    using v(3) by (simp add: t_def STATUS_LED_def)
  have first: "\<not> gpio_out t (DQ0 ! 0)"
    using off by (simp add: t_def DQ0_def)
  have bank0: "gpio_out t (DQ0 ! 1)" "gpio_out t (DQ0 ! 2)" "gpio_out t (DQ0 ! 3)"
    "gpio_out t (DQ0 ! 4)" "gpio_out t (DQ0 ! 5)" "gpio_out t (DQ0 ! 6)"
    "gpio_out t (DQ0 ! 7)" "gpio_out t (DQ0 ! 8)" "gpio_out t (DQ0 ! 9)"
    by (simp_all add: t_def DQ0_def v(2))
  have bank1: "gpio_out t (DQ1 ! 0)" "gpio_out t (DQ1 ! 1)" "gpio_out t (DQ1 ! 2)"
    "gpio_out t (DQ1 ! 3)" "gpio_out t (DQ1 ! 4)" "gpio_out t (DQ1 ! 5)"
    "gpio_out t (DQ1 ! 6)" "gpio_out t (DQ1 ! 7)" "gpio_out t (DQ1 ! 8)"
    "gpio_out t (DQ1 ! 9)"
    by (simp_all add: t_def DQ1_def v(4))
  from s0(1) run flags led first bank0 bank1 show ?thesis
    by blast
qed

text \<open>
  C3. Mirror bit and interlock state can part on the code, in two ways. A single button
  press during the wait for the network enables the interlock and sets coil 31, and
  \<^verbatim>\<open>setup_reg_data\<close> then clears the coil words alone: start-up ends Enabled, LED on,
  with coil 31 clear. And after a start-up without a press, in the schedule
  \<open>toggle_after_read\<close>, a press that falls between the read of coil 31 (line 312) and
  the test of \<^verbatim>\<open>outputs_enabled\<close> (line 313) enables the interlock and sets coil 31,
  after which the main task, with the old value of the coil in hand, takes the
  disabling branch: the handling of the write ends Disabled with coil 31 set.
\<close>

theorem mirror_bit_desync:
  "(\<exists>s0. app_main_startup g e 1 = Some s0 \<and>
         outputs_enabled s0 \<and> \<not> MB_IS_COIL_ON (of_nat OE_COIL_ADDR) s0 \<and>
         gpio_out s0 STATUS_LED) \<and>
   (\<exists>s0 t. app_main_startup g e 0 = Some s0 \<and>
         \<not> outputs_enabled s0 \<and> \<not> MB_IS_COIL_ON (of_nat OE_COIL_ADDR) s0 \<and>
         sys_run toggle_after_read (AT_WAIT, s0) = Some (AT_WAIT, t) \<and>
         \<not> outputs_enabled t \<and> MB_IS_COIL_ON (of_nat OE_COIL_ADDR) t)"
proof
  from startup_one_press [of g e]
  show "\<exists>s0. app_main_startup g e 1 = Some s0 \<and>
         outputs_enabled s0 \<and> \<not> MB_IS_COIL_ON (of_nat OE_COIL_ADDR) s0 \<and>
         gpio_out s0 STATUS_LED"
    by (auto simp add: MB_IS_COIL_ON_oe)
next
  obtain s0 where s0: "app_main_startup g e 0 = Some s0" "coils_bank1 s0 = 0"
      "\<not> outputs_enabled s0"
    using startup_no_press [of g e] by blast
  let ?u = "s0\<lparr>coils_bank0 := 0x0001, coils_bank1 := 0x0000\<rparr>"
  have u: "\<not> outputs_enabled ?u" "\<not> MB_IS_COIL_ON (of_nat OE_COIL_ADDR) ?u"
    using s0(3) by (simp_all add: MB_IS_COIL_ON_oe)
  from toggle_from_disabled [OF u(1)] obtain v where
    v: "on_oe_button_toggle ?u = Some v" "outputs_enabled v" "bit (coils_bank1 v) 15"
    by blast
  let ?t = "esp32_rio_turn_status_led_off ((esp32_rio_disable_outputs v)\<lparr>outputs_enabled := False\<rparr>)"
  have "sys_run toggle_after_read (AT_WAIT, s0) = Some (AT_WAIT, ?t)"
    using u(2) v(1,2) by (simp add: toggle_after_read_def)
  moreover have "\<not> outputs_enabled ?t" "MB_IS_COIL_ON (of_nat OE_COIL_ADDR) ?t"
    using v(3) by (simp_all add: MB_IS_COIL_ON_oe led_frame disable_frame)
  ultimately show "\<exists>s0 t. app_main_startup g e 0 = Some s0 \<and>
         \<not> outputs_enabled s0 \<and> \<not> MB_IS_COIL_ON (of_nat OE_COIL_ADDR) s0 \<and>
         sys_run toggle_after_read (AT_WAIT, s0) = Some (AT_WAIT, t) \<and>
         \<not> outputs_enabled t \<and> MB_IS_COIL_ON (of_nat OE_COIL_ADDR) t"
    using s0 by (auto simp add: MB_IS_COIL_ON_oe)
qed

section \<open>Mirroring while enabled\<close>

text \<open>
  C2. Mirroring while Enabled. A pass that handles a coil write in a state where the
  interlock is Enabled and the mirror bit (coil 31) is set ends with the interlock still
  Enabled and the coil words untouched, and for every channel \<open>k\<close> below 10 the bank-0
  line \<open>k\<close> equals bit \<open>k\<close> of \<open>coils_bank0\<close> (coil \<open>k\<close>) and the bank-1 line
  \<open>k\<close> equals bit \<open>k\<close> of \<open>coils_bank1\<close> (coil \<open>16 + k\<close>).
\<close>

theorem mirroring_while_enabled:
  assumes "outputs_enabled s" and "MB_IS_COIL_ON (of_nat OE_COIL_ADDR) s"
    and "coil_write_event reg_info_type"
  shows "\<exists>t. mb_slave_run_pass reg_info_type s = Some t \<and> outputs_enabled t \<and>
           coils_bank0 t = coils_bank0 s \<and> coils_bank1 t = coils_bank1 s \<and>
           (\<forall>k<ESP32_RIO_NUM_IO_CHANNELS.
              gpio_out t (DQ0 ! k) = bit (coils_bank0 t) k \<and>
              gpio_out t (DQ1 ! k) = bit (coils_bank1 t) k \<and>
              MB_IS_COIL_ON (of_nat k) t = bit (coils_bank0 t) k \<and>
              MB_IS_COIL_ON (of_nat (k + 16)) t = bit (coils_bank1 t) k)"
proof -
  from assms(2) have "bit (coils_bank1 s) 15"
    by (simp add: MB_IS_COIL_ON_oe)
  from pass_remirror [OF assms(3) assms(1) this] obtain t where
    t: "mb_slave_run_pass reg_info_type s = Some t" "outputs_enabled t"
       "outputs_mirror_coils t" "coils_bank0 t = coils_bank0 s" "coils_bank1 t = coils_bank1 s"
    by blast
  from t(3) have "\<forall>k<ESP32_RIO_NUM_IO_CHANNELS.
      gpio_out t (DQ0 ! k) = bit (coils_bank0 t) k \<and>
      gpio_out t (DQ1 ! k) = bit (coils_bank1 t) k \<and>
      MB_IS_COIL_ON (of_nat k) t = bit (coils_bank0 t) k \<and>
      MB_IS_COIL_ON (of_nat (k + 16)) t = bit (coils_bank1 t) k"
    by (simp add: outputs_mirror_coils_iff ESP32_RIO_NUM_IO_CHANNELS_def
        MB_IS_COIL_ON_bank0 MB_IS_COIL_ON_bank1 del: of_nat_add)
  with t show ?thesis
    by blast
qed

theorem mirroring_while_enabled_witness:
  "outputs_enabled
     \<lparr>coils_bank0 = 0x0020, coils_bank1 = 0x8000, discrete_inputs = 0,
      outputs_enabled = True, gpio_out = (\<lambda>p. p = 43), gpio_in = (\<lambda>_. False)\<rparr> \<and>
   MB_IS_COIL_ON (of_nat OE_COIL_ADDR)
     \<lparr>coils_bank0 = 0x0020, coils_bank1 = 0x8000, discrete_inputs = 0,
      outputs_enabled = True, gpio_out = (\<lambda>p. p = 43), gpio_in = (\<lambda>_. False)\<rparr> \<and>
   coil_write_event {MB_EVENT_COILS_WR} \<and>
   (\<exists>t. mb_slave_run_pass {MB_EVENT_COILS_WR}
          \<lparr>coils_bank0 = 0x0020, coils_bank1 = 0x8000, discrete_inputs = 0,
           outputs_enabled = True, gpio_out = (\<lambda>p. p = 43), gpio_in = (\<lambda>_. False)\<rparr> = Some t \<and>
        outputs_enabled t \<and> gpio_out t (DQ0 ! 5) \<and> \<not> gpio_out t (DQ0 ! 4) \<and>
        \<not> gpio_out t (DQ1 ! 5))"
proof -
  let ?s = "\<lparr>coils_bank0 = 0x0020, coils_bank1 = 0x8000, discrete_inputs = 0,
      outputs_enabled = True, gpio_out = (\<lambda>p. p = 43), gpio_in = (\<lambda>_. False)\<rparr>"
  have h: "outputs_enabled ?s" "MB_IS_COIL_ON (of_nat OE_COIL_ADDR) ?s"
      "coil_write_event {MB_EVENT_COILS_WR}"
    by (simp_all add: MB_IS_COIL_ON_oe coil_write_event_def)
  from mirroring_while_enabled [OF h] obtain t where
    t: "mb_slave_run_pass {MB_EVENT_COILS_WR} ?s = Some t" "outputs_enabled t"
       "coils_bank0 t = 0x0020" "coils_bank1 t = 0x8000"
       "\<forall>k<ESP32_RIO_NUM_IO_CHANNELS.
              gpio_out t (DQ0 ! k) = bit (coils_bank0 t) k \<and>
              gpio_out t (DQ1 ! k) = bit (coils_bank1 t) k \<and>
              MB_IS_COIL_ON (of_nat k) t = bit (coils_bank0 t) k \<and>
              MB_IS_COIL_ON (of_nat (k + 16)) t = bit (coils_bank1 t) k"
    by auto
  from t(5) have "gpio_out t (DQ0 ! 5) = bit (coils_bank0 t) 5"
      "gpio_out t (DQ0 ! 4) = bit (coils_bank0 t) 4"
      "gpio_out t (DQ1 ! 5) = bit (coils_bank1 t) 5"
    by (simp_all add: ESP32_RIO_NUM_IO_CHANNELS_def)
  with t(3,4) have "gpio_out t (DQ0 ! 5)" "\<not> gpio_out t (DQ0 ! 4)" "\<not> gpio_out t (DQ1 ! 5)"
    by simp_all
  with h t(1,2) show ?thesis
    by blast
qed

section \<open>Synchronisation, scenarios and addressing\<close>

text \<open>
  C4. Scenario A. From a Disabled state whose \<open>coils_bank0\<close> is \<open>0b101\<close>, one local
  toggle enables the interlock, drives bank-0 lines 0 and 2 on and line 1 off, sets
  coil 31 and turns the status LED on.
\<close>

theorem scenario_a_local_enable:
  "\<exists>t. on_oe_button_toggle (s\<lparr>outputs_enabled := False, coils_bank0 := 5\<rparr>) = Some t \<and>
       outputs_enabled t \<and>
       gpio_out t (DQ0 ! 0) \<and> \<not> gpio_out t (DQ0 ! 1) \<and> gpio_out t (DQ0 ! 2) \<and>
       MB_IS_COIL_ON (of_nat OE_COIL_ADDR) t \<and> bit (coils_bank1 t) 15 \<and>
       gpio_out t STATUS_LED \<and> coils_bank0 t = 5"
proof -
  let ?s = "s\<lparr>outputs_enabled := False, coils_bank0 := 5\<rparr>"
  have "\<not> outputs_enabled ?s"
    by simp
  from toggle_from_disabled [OF this] obtain t where
    t: "on_oe_button_toggle ?s = Some t" "outputs_enabled t" "bit (coils_bank1 t) 15"
       "outputs_mirror_coils t" "gpio_out t STATUS_LED" "coils_bank0 t = 5"
    by auto
  from t(4) have "gpio_out t (DQ0 ! 0) = bit (coils_bank0 t) 0"
      "gpio_out t (DQ0 ! 1) = bit (coils_bank0 t) 1"
      "gpio_out t (DQ0 ! 2) = bit (coils_bank0 t) 2"
    by (simp_all add: outputs_mirror_coils_iff ESP32_RIO_NUM_IO_CHANNELS_def)
  with t(6) have "gpio_out t (DQ0 ! 0)" "\<not> gpio_out t (DQ0 ! 1)" "gpio_out t (DQ0 ! 2)"
    by simp_all
  with t show ?thesis
    by (simp add: MB_IS_COIL_ON_oe)
qed

lemma clear_mirror_idem:
  assumes "\<not> bit (w :: 16 word) 15"
  shows "(ucast (ucast w AND NOT (push_bit 15 (1 :: 64 word))) :: 16 word) = w"
proof (rule bit_eqI)
  fix k
  from assms show "bit (ucast (ucast w AND NOT (push_bit 15 (1 :: 64 word))) :: 16 word) k = bit w k"
    by (cases "k = 15") (simp_all add: coil_clear_bit del: push_bit_of_1)
qed

lemma disable_forcing_fixpoint:
  assumes "\<not> outputs_enabled t" and "\<not> bit (coils_bank1 t) 15" and "all_outputs_off t"
    and "\<not> gpio_out t STATUS_LED"
  shows "esp32_rio_turn_status_led_off
           (esp32_rio_disable_outputs
             (MB_TURN_COIL_OFF (of_nat OE_COIL_ADDR) (t\<lparr>outputs_enabled := False\<rparr>))) = t"
proof -
  from assms(3) have off: "\<not> gpio_out t 10" "\<not> gpio_out t 46" "\<not> gpio_out t 12"
      "\<not> gpio_out t 11" "\<not> gpio_out t 14" "\<not> gpio_out t 13" "\<not> gpio_out t 47"
      "\<not> gpio_out t 21" "\<not> gpio_out t 39" "\<not> gpio_out t 48" "\<not> gpio_out t 40"
      "\<not> gpio_out t 45" "\<not> gpio_out t 41" "\<not> gpio_out t 35" "\<not> gpio_out t 42"
      "\<not> gpio_out t 36" "\<not> gpio_out t 2" "\<not> gpio_out t 37" "\<not> gpio_out t 1"
      "\<not> gpio_out t 38"
    by (simp_all add: all_outputs_off_def all_channels DQ0_def DQ1_def)
  from assms(4) have led: "\<not> gpio_out t 43"
    by (simp add: STATUS_LED_def)
  have g: "(gpio_out t)
       (10 := False, 46 := False, 12 := False, 11 := False, 14 := False, 13 := False,
        47 := False, 21 := False, 39 := False, 48 := False, 40 := False, 45 := False,
        41 := False, 35 := False, 42 := False, 36 := False, 2 := False, 37 := False,
        1 := False, 38 := False, 43 := False) = gpio_out t"
    using off led by (intro ext) (simp del: One_nat_def)
  show ?thesis
    using assms(1)
    by (simp add: esp32_rio_turn_status_led_off_def gpio_set_level_def
        esp32_rio_disable_outputs_eq MB_TURN_COIL_OFF_oe clear_mirror_idem [OF assms(2)]
        STATUS_LED_def g del: push_bit_of_1 One_nat_def)
qed

text \<open>
  C7, as stated, fails. From the Enabled sample state the first local toggle reaches
  Disabled, and the second one is not a no-op: it leaves the interlock Enabled, with
  bank-0 line 0 driven on again.
\<close>

theorem local_toggle_twice_counterexample:
  "on_oe_button_toggle enabled_sample \<noteq> None \<and>
   \<not> outputs_enabled (the (on_oe_button_toggle enabled_sample)) \<and>
   Option.bind (on_oe_button_toggle enabled_sample) on_oe_button_toggle \<noteq> None \<and>
   outputs_enabled (the (Option.bind (on_oe_button_toggle enabled_sample) on_oe_button_toggle)) \<and>
   gpio_out (the (Option.bind (on_oe_button_toggle enabled_sample) on_oe_button_toggle))
     (DQ0 ! 0) \<and>
   Option.bind (on_oe_button_toggle enabled_sample) on_oe_button_toggle \<noteq>
     on_oe_button_toggle enabled_sample"
proof -
  have en: "outputs_enabled enabled_sample"
    by (simp add: enabled_sample_def)
  from toggle_from_enabled [OF en] obtain t where
    t: "on_oe_button_toggle enabled_sample = Some t" "\<not> outputs_enabled t"
       "coils_bank0 t = coils_bank0 enabled_sample"
    by blast
  from toggle_from_disabled [OF t(2)] obtain u where
    u: "on_oe_button_toggle t = Some u" "outputs_enabled u" "outputs_mirror_coils u"
       "coils_bank0 u = coils_bank0 t"
    by blast
  from u(3) have "gpio_out u (DQ0 ! 0) = bit (coils_bank0 u) 0"
    by (simp add: outputs_mirror_coils_iff ESP32_RIO_NUM_IO_CHANNELS_def)
  with u(4) t(3) have "gpio_out u (DQ0 ! 0)"
    by (simp add: enabled_sample_def)
  moreover from t(2) u(2) have "u \<noteq> t"
    by auto
  ultimately show ?thesis
    using t u by simp
qed

text \<open>
  C7, amended. A local toggle from Enabled reaches a state that is Disabled, with coil 31
  clear, all outputs off and the LED off. In that state the forcing actions of the
  disabling branch (clear coil 31, force the outputs off, LED off) change nothing when
  they are performed again. The toggle itself flips on every call: applied to that
  state it enables the interlock, sets coil 31, mirrors the coils and lights the LED.
\<close>

theorem disable_forcing_idempotent:
  assumes "outputs_enabled s"
  shows "\<exists>t. on_oe_button_toggle s = Some t \<and>
           \<not> outputs_enabled t \<and> \<not> MB_IS_COIL_ON (of_nat OE_COIL_ADDR) t \<and>
           all_outputs_off t \<and> \<not> gpio_out t STATUS_LED \<and>
           esp32_rio_turn_status_led_off
             (esp32_rio_disable_outputs
               (MB_TURN_COIL_OFF (of_nat OE_COIL_ADDR) (t\<lparr>outputs_enabled := False\<rparr>))) = t \<and>
           (\<exists>u. on_oe_button_toggle t = Some u \<and> outputs_enabled u \<and>
                MB_IS_COIL_ON (of_nat OE_COIL_ADDR) u \<and> outputs_mirror_coils u \<and>
                gpio_out u STATUS_LED)"
proof -
  from toggle_from_enabled [OF assms] obtain t where
    t: "on_oe_button_toggle s = Some t" "\<not> outputs_enabled t" "\<not> bit (coils_bank1 t) 15"
       "all_outputs_off t" "\<not> gpio_out t STATUS_LED"
    by blast
  note idem = disable_forcing_fixpoint [OF t(2) t(3) t(4) t(5)]
  from toggle_from_disabled [OF t(2)] obtain u where
    u: "on_oe_button_toggle t = Some u" "outputs_enabled u" "bit (coils_bank1 u) 15"
       "outputs_mirror_coils u" "gpio_out u STATUS_LED"
    by blast
  from t idem u show ?thesis
    by (simp add: MB_IS_COIL_ON_oe)
qed

theorem disable_forcing_idempotent_witness:
  "outputs_enabled enabled_sample \<and>
   (\<exists>t. on_oe_button_toggle enabled_sample = Some t \<and>
        \<not> outputs_enabled t \<and> all_outputs_off t \<and>
        esp32_rio_turn_status_led_off
          (esp32_rio_disable_outputs
            (MB_TURN_COIL_OFF (of_nat OE_COIL_ADDR) (t\<lparr>outputs_enabled := False\<rparr>))) = t \<and>
        (\<exists>u. on_oe_button_toggle t = Some u \<and> outputs_enabled u))"
proof -
  have en: "outputs_enabled enabled_sample"
    by (simp add: enabled_sample_def)
  from disable_forcing_idempotent [OF en] en show ?thesis
    by blast
qed

lemma input_clear_bit:
  "n < 16 \<Longrightarrow>
   bit (ucast (ucast (w :: 16 word) AND NOT (push_bit n (1 :: 32 word))) :: 16 word) k =
     (k \<noteq> n \<and> bit w k)"
  by (auto simp add: bit_simps dest: bit_imp_le_length)

lemma coil_set_bit_eq:
  "n < 16 \<Longrightarrow>
   (ucast (ucast (w :: 16 word) OR push_bit n (1 :: 32 word)) :: 16 word) = set_bit n w"
  by (rule bit_eqI) (auto simp add: coil_set_bit bit_simps simp del: push_bit_of_1
      dest: bit_imp_le_length)

lemma coil_clear_bit_eq:
  "n < 16 \<Longrightarrow>
   (ucast (ucast (w :: 16 word) AND NOT (push_bit n (1 :: 64 word))) :: 16 word) = unset_bit n w"
  by (rule bit_eqI) (auto simp add: coil_clear_bit bit_simps simp del: push_bit_of_1)

lemma bank0_addr:
  assumes "a < 16"
  shows "(of_nat a :: 16 word) < 16" and "unat (of_nat a :: 16 word) = a"
  using assms by (simp_all add: word_less_nat_alt unat_coil_addr)

lemma bank1_addr:
  assumes "16 \<le> a" and "a < 32"
  shows "\<not> (of_nat a :: 16 word) < 16" and "(16 :: 16 word) \<le> of_nat a"
    and "(of_nat a :: 16 word) < 32" and "unat (of_nat a - 16 :: 16 word) = a - 16"
proof -
  from assms have u: "unat (of_nat a :: 16 word) = a"
    by (simp add: unat_coil_addr)
  with assms show "\<not> (of_nat a :: 16 word) < 16" and le: "(16 :: 16 word) \<le> of_nat a"
    and "(of_nat a :: 16 word) < 32"
    by (simp_all add: word_less_nat_alt word_le_nat_alt)
  from unat_sub [OF le] u show "unat (of_nat a - 16 :: 16 word) = a - 16"
    by simp
qed

lemma coil_macros_bank0:
  assumes "a < 16"
  shows "MB_IS_COIL_ON (of_nat a) s = bit (coils_bank0 s) a"
    and "MB_TURN_COIL_ON (of_nat a) s = s\<lparr>coils_bank0 := set_bit a (coils_bank0 s)\<rparr>"
    and "MB_TURN_COIL_OFF (of_nat a) s = s\<lparr>coils_bank0 := unset_bit a (coils_bank0 s)\<rparr>"
  using assms
  by (simp_all add: MB_IS_COIL_ON_def MB_TURN_COIL_ON_def MB_TURN_COIL_OFF_def bank0_addr
      coil_test_bit coil_set_bit_eq coil_clear_bit_eq del: push_bit_of_1)

lemma coil_macros_bank1:
  assumes "16 \<le> a" and "a < 32"
  shows "MB_IS_COIL_ON (of_nat a) s = bit (coils_bank1 s) (a - 16)"
    and "MB_TURN_COIL_ON (of_nat a) s = s\<lparr>coils_bank1 := set_bit (a - 16) (coils_bank1 s)\<rparr>"
    and "MB_TURN_COIL_OFF (of_nat a) s = s\<lparr>coils_bank1 := unset_bit (a - 16) (coils_bank1 s)\<rparr>"
  using assms
  by (simp_all add: MB_IS_COIL_ON_def MB_TURN_COIL_ON_def MB_TURN_COIL_OFF_def
      bank1_addr [OF assms] coil_test_bit coil_set_bit_eq coil_clear_bit_eq del: push_bit_of_1)

lemma oe_on_set_bit:
  "MB_TURN_COIL_ON (of_nat OE_COIL_ADDR) s = s\<lparr>coils_bank1 := set_bit 15 (coils_bank1 s)\<rparr>"
  using coil_macros_bank1(2) [of 31 s] by (simp add: OE_COIL_ADDR_def)

lemma oe_off_unset_bit:
  "MB_TURN_COIL_OFF (of_nat OE_COIL_ADDR) s = s\<lparr>coils_bank1 := unset_bit 15 (coils_bank1 s)\<rparr>"
  using coil_macros_bank1(3) [of 31 s] by (simp add: OE_COIL_ADDR_def)

lemma update_digital_outputs_reads_outputs_only:
  assumes "\<forall>k<ESP32_RIO_NUM_IO_CHANNELS. bit b0 k = bit (coils_bank0 s) k"
    and "\<forall>k<ESP32_RIO_NUM_IO_CHANNELS. bit b1 k = bit (coils_bank1 s) k"
  shows "map_option gpio_out (update_digital_outputs (s\<lparr>coils_bank0 := b0, coils_bank1 := b1\<rparr>)) =
         map_option gpio_out (update_digital_outputs s)"
  using assms by (simp add: update_digital_outputs_eq all_channels)

text \<open>
  C5, as stated, fails in one clause: the mirror bit is not the address immediately above
  the output range. Bank-1 outputs end at address 25; in the sample state coil 26 is
  set, coil 31 is not, and a pass that handles a coil write leaves the interlock
  Disabled.
\<close>

theorem mirror_address_counterexample:
  "MB_IS_COIL_ON 26 coil26_sample \<and>
   \<not> MB_IS_COIL_ON (of_nat OE_COIL_ADDR) coil26_sample \<and>
   \<not> outputs_enabled coil26_sample \<and>
   mb_slave_run_pass {MB_EVENT_COILS_WR} coil26_sample = Some coil26_sample \<and>
   OE_COIL_ADDR \<noteq> 26"
proof -
  have "MB_IS_COIL_ON 26 coil26_sample"
    using coil_macros_bank1(1) [of 26 coil26_sample] by (simp add: coil26_sample_def)
  moreover have "\<not> bit (coils_bank1 coil26_sample) 15" "\<not> outputs_enabled coil26_sample"
    by (simp_all add: coil26_sample_def)
  moreover have "OE_COIL_ADDR \<noteq> 26"
    by (simp add: OE_COIL_ADDR_def)
  ultimately show ?thesis
    by (simp add: MB_IS_COIL_ON_oe pass_idle)
qed

text \<open>
  C5, amended. With a bank width of 16, an address \<open>a\<close> below 16 is bit \<open>a\<close> of
  bank 0 and an address from 16 to 31 is bit \<open>a - 16\<close> of bank 1, for the test and for
  both writes. The mirror bit is address 31, bit 15 of bank 1, above every output
  address. \<open>update_digital_outputs\<close> drives bank-0 line \<open>k\<close> from coil \<open>k\<close> and
  bank-1 line \<open>k\<close> from coil \<open>16 + k\<close> for \<open>k\<close> below 10, and the levels it drives
  depend on those coils alone: changing any other coil bit, coil 31 among them, changes
  no output.
\<close>

theorem coil_bit_addressing:
  "(a < 16 \<longrightarrow>
      MB_IS_COIL_ON (of_nat a) s = bit (coils_bank0 s) a \<and>
      MB_TURN_COIL_ON (of_nat a) s = s\<lparr>coils_bank0 := set_bit a (coils_bank0 s)\<rparr> \<and>
      MB_TURN_COIL_OFF (of_nat a) s = s\<lparr>coils_bank0 := unset_bit a (coils_bank0 s)\<rparr>) \<and>
   (16 \<le> a \<and> a < 32 \<longrightarrow>
      MB_IS_COIL_ON (of_nat a) s = bit (coils_bank1 s) (a - 16) \<and>
      MB_TURN_COIL_ON (of_nat a) s = s\<lparr>coils_bank1 := set_bit (a - 16) (coils_bank1 s)\<rparr> \<and>
      MB_TURN_COIL_OFF (of_nat a) s = s\<lparr>coils_bank1 := unset_bit (a - 16) (coils_bank1 s)\<rparr>) \<and>
   OE_COIL_ADDR = 31 \<and>
   MB_IS_COIL_ON (of_nat OE_COIL_ADDR) s = bit (coils_bank1 s) 15 \<and>
   (\<exists>t. update_digital_outputs s = Some t \<and>
      (\<forall>k<ESP32_RIO_NUM_IO_CHANNELS.
         gpio_out t (DQ0 ! k) = MB_IS_COIL_ON (of_nat k) s \<and>
         gpio_out t (DQ1 ! k) = MB_IS_COIL_ON (of_nat (16 + k)) s \<and>
         MB_IS_COIL_ON (of_nat (16 + k)) s = bit (coils_bank1 s) k \<and>
         16 + k < OE_COIL_ADDR)) \<and>
   (\<forall>b0 b1. (\<forall>k<ESP32_RIO_NUM_IO_CHANNELS. bit b0 k = bit (coils_bank0 s) k) \<and>
            (\<forall>k<ESP32_RIO_NUM_IO_CHANNELS. bit b1 k = bit (coils_bank1 s) k) \<longrightarrow>
      map_option gpio_out (update_digital_outputs (s\<lparr>coils_bank0 := b0, coils_bank1 := b1\<rparr>)) =
      map_option gpio_out (update_digital_outputs s)) \<and>
   map_option gpio_out (update_digital_outputs (MB_TURN_COIL_ON (of_nat OE_COIL_ADDR) s)) =
     map_option gpio_out (update_digital_outputs s) \<and>
   map_option gpio_out (update_digital_outputs (MB_TURN_COIL_OFF (of_nat OE_COIL_ADDR) s)) =
     map_option gpio_out (update_digital_outputs s)"
proof -
  obtain t where t: "update_digital_outputs s = Some t" "outputs_mirror_coils t"
      "coils_bank0 t = coils_bank0 s" "coils_bank1 t = coils_bank1 s"
    using update_digital_outputs_mirror [of s] by blast
  from t(2,3,4) have drive: "\<forall>k<ESP32_RIO_NUM_IO_CHANNELS.
         gpio_out t (DQ0 ! k) = MB_IS_COIL_ON (of_nat k) s \<and>
         gpio_out t (DQ1 ! k) = MB_IS_COIL_ON (of_nat (16 + k)) s \<and>
         MB_IS_COIL_ON (of_nat (16 + k)) s = bit (coils_bank1 s) k \<and>
         16 + k < OE_COIL_ADDR"
    by (simp add: outputs_mirror_coils_iff ESP32_RIO_NUM_IO_CHANNELS_def OE_COIL_ADDR_def
        coil_macros_bank0(1) coil_macros_bank1(1) del: of_nat_add)
  have on: "map_option gpio_out (update_digital_outputs (MB_TURN_COIL_ON (of_nat OE_COIL_ADDR) s)) =
     map_option gpio_out (update_digital_outputs s)"
    using update_digital_outputs_reads_outputs_only
      [of "coils_bank0 s" s "set_bit 15 (coils_bank1 s)"]
    by (simp add: oe_on_set_bit ESP32_RIO_NUM_IO_CHANNELS_def bit_simps)
  have off: "map_option gpio_out (update_digital_outputs (MB_TURN_COIL_OFF (of_nat OE_COIL_ADDR) s)) =
     map_option gpio_out (update_digital_outputs s)"
    using update_digital_outputs_reads_outputs_only
      [of "coils_bank0 s" s "unset_bit 15 (coils_bank1 s)"]
    by (simp add: oe_off_unset_bit ESP32_RIO_NUM_IO_CHANNELS_def bit_simps)
  from t(1) drive on off show ?thesis
    by (simp add: coil_macros_bank0 coil_macros_bank1 MB_IS_COIL_ON_oe
        update_digital_outputs_reads_outputs_only)
      (simp add: OE_COIL_ADDR_def)
qed

theorem coil_bit_addressing_witness:
  "(5 :: nat) < 16 \<and> MB_IS_COIL_ON (of_nat 5) coil20_sample \<and>
   (16 :: nat) \<le> 20 \<and> (20 :: nat) < 32 \<and> MB_IS_COIL_ON (of_nat 20) coil20_sample \<and>
   take_bit ESP32_RIO_NUM_IO_CHANNELS (0xFC10 :: 16 word) =
     take_bit ESP32_RIO_NUM_IO_CHANNELS (coils_bank1 coil20_sample) \<and>
   map_option gpio_out
     (update_digital_outputs (coil20_sample\<lparr>coils_bank0 := 0x0020, coils_bank1 := 0xFC10\<rparr>)) =
   map_option gpio_out (update_digital_outputs coil20_sample) \<and>
   (\<exists>t. update_digital_outputs coil20_sample = Some t \<and> gpio_out t (DQ1 ! 4) \<and>
        \<not> gpio_out t (DQ1 ! 5))"
proof -
  have agree: "\<forall>k<ESP32_RIO_NUM_IO_CHANNELS. bit (0x0020 :: 16 word) k = bit (coils_bank0 coil20_sample) k"
    "\<forall>k<ESP32_RIO_NUM_IO_CHANNELS. bit (0xFC10 :: 16 word) k = bit (coils_bank1 coil20_sample) k"
    by (simp_all add: all_channels coil20_sample_def)
  have b: "bit (coils_bank0 coil20_sample) 5" "bit (coils_bank1 coil20_sample) (20 - 16)"
    "\<not> bit (coils_bank1 coil20_sample) 5"
    by (simp_all add: coil20_sample_def)
  from coil_bit_addressing [of 20 coil20_sample] obtain t where
    t: "update_digital_outputs coil20_sample = Some t"
      "\<forall>k<ESP32_RIO_NUM_IO_CHANNELS.
         gpio_out t (DQ0 ! k) = MB_IS_COIL_ON (of_nat k) coil20_sample \<and>
         gpio_out t (DQ1 ! k) = MB_IS_COIL_ON (of_nat (16 + k)) coil20_sample \<and>
         MB_IS_COIL_ON (of_nat (16 + k)) coil20_sample = bit (coils_bank1 coil20_sample) k \<and>
         16 + k < OE_COIL_ADDR"
    by blast
  have "(4 :: nat) < ESP32_RIO_NUM_IO_CHANNELS" "(5 :: nat) < ESP32_RIO_NUM_IO_CHANNELS"
    by (simp_all add: ESP32_RIO_NUM_IO_CHANNELS_def)
  with t(2) have "gpio_out t (DQ1 ! 4) = bit (coils_bank1 coil20_sample) 4"
    "gpio_out t (DQ1 ! 5) = bit (coils_bank1 coil20_sample) 5"
    by metis+
  with b have out: "gpio_out t (DQ1 ! 4)" "\<not> gpio_out t (DQ1 ! 5)"
    by simp_all
  have "MB_IS_COIL_ON (of_nat 5) coil20_sample"
    using coil_bit_addressing [of 5 coil20_sample] b(1) by simp
  moreover have "MB_IS_COIL_ON (of_nat 20) coil20_sample"
    using coil_bit_addressing [of 20 coil20_sample] b(2) by simp
  moreover have "map_option gpio_out
     (update_digital_outputs (coil20_sample\<lparr>coils_bank0 := 0x0020, coils_bank1 := 0xFC10\<rparr>)) =
   map_option gpio_out (update_digital_outputs coil20_sample)"
    using coil_bit_addressing [of 20 coil20_sample] agree by blast
  moreover have "take_bit ESP32_RIO_NUM_IO_CHANNELS (0xFC10 :: 16 word) =
     take_bit ESP32_RIO_NUM_IO_CHANNELS (coils_bank1 coil20_sample)"
    by (simp add: ESP32_RIO_NUM_IO_CHANNELS_def coil20_sample_def)
  ultimately show ?thesis
    using t(1) out by simp
qed

text \<open>
  C8. Input mirror. For an input channel \<open>i\<close> below 10, \<open>on_di_level_change i\<close>
  makes bit \<open>i\<close> of \<open>discrete_inputs\<close> equal to the level sampled on input \<open>i\<close>,
  keeps every other bit of that word, and changes neither coil word nor anything else.
\<close>

theorem input_mirror_frame:
  assumes "i < ESP32_RIO_NUM_IO_CHANNELS"
  shows "\<exists>t. on_di_level_change i s = Some t \<and>
           esp32_rio_is_input_on i s = Some (bit (discrete_inputs t) i) \<and>
           bit (discrete_inputs t) i = gpio_get_level (DI ! i) s \<and>
           (\<forall>k. k \<noteq> i \<longrightarrow> bit (discrete_inputs t) k = bit (discrete_inputs s) k) \<and>
           coils_bank0 t = coils_bank0 s \<and> coils_bank1 t = coils_bank1 s \<and>
           outputs_enabled t = outputs_enabled s \<and> gpio_out t = gpio_out s \<and>
           gpio_in t = gpio_in s"
proof -
  from assms have i: "i < 16" "i < length DI"
    by (simp_all add: ESP32_RIO_NUM_IO_CHANNELS_def DI_def)
  show ?thesis
  proof (cases "gpio_get_level (DI ! i) s")
    case True
    with i show ?thesis
      by (auto simp add: on_di_level_change_def esp32_rio_is_input_on_def coil_set_bit
          simp del: push_bit_of_1 dest: bit_imp_le_length)
  next
    case False
    with i show ?thesis
      by (simp add: on_di_level_change_def esp32_rio_is_input_on_def input_clear_bit
          del: push_bit_of_1)
  qed
qed

theorem input_mirror_frame_witness:
  "(3 :: nat) < ESP32_RIO_NUM_IO_CHANNELS \<and>
   (\<exists>t. on_di_level_change 3 input3_sample = Some t \<and> discrete_inputs t = 0x0209 \<and>
        coils_bank0 t = 0x0001 \<and> coils_bank1 t = 0x8000)"
proof -
  have h: "(3 :: nat) < ESP32_RIO_NUM_IO_CHANNELS"
    by (simp add: ESP32_RIO_NUM_IO_CHANNELS_def)
  from input_mirror_frame [OF h, of input3_sample] obtain t where
    t: "on_di_level_change 3 input3_sample = Some t"
       "coils_bank0 t = coils_bank0 input3_sample" "coils_bank1 t = coils_bank1 input3_sample"
    by blast
  have "on_di_level_change 3 input3_sample = Some (input3_sample\<lparr>discrete_inputs := 0x0209\<rparr>)"
    by (simp add: on_di_level_change_def esp32_rio_is_input_on_def gpio_get_level_def
        DI_def input3_sample_def all_low_def)
  with t h show ?thesis
    by (simp add: input3_sample_def)
qed

section \<open>Debounce and the input task\<close>


lemma io_task_scan_no_match:
  assumes "io_num \<notin> set DI"
  shows "io_task_scan io_num i (io, app) = Some (io, app)"
proof (induction "ESP32_RIO_NUM_IO_CHANNELS - i" arbitrary: i)
  case 0
  then show ?case
    by (subst io_task_scan.simps) simp
next
  case (Suc n)
  then have i: "i < ESP32_RIO_NUM_IO_CHANNELS" and n: "n = ESP32_RIO_NUM_IO_CHANNELS - (i + 1)"
    by simp_all
  from i have "i < length DI"
    by (simp add: DI_def ESP32_RIO_NUM_IO_CHANNELS_def)
  then have "DI ! i \<in> set DI"
    by (rule nth_mem)
  with assms have "io_num \<noteq> DI ! i"
    by auto
  with i Suc.hyps(1) [OF n] show ?case
    by (subst io_task_scan.simps) simp
qed


lemma armed_armed [simp]: "armed (armed io m) n = armed io n"
  by (simp add: armed_def)








text \<open>
  C9. Spurious identifiers. For a number that is none of the \<open>DI\<close> pins, the scan
  over the channels ends without a match and returns services and application state as
  they were, whatever observer is registered; a pass of the task that takes such a
  number from the queue only removes it.
\<close>

theorem spurious_identifier_ignored:
  assumes "io_num \<notin> set DI"
  shows "io_task_scan io_num 0 (io, app) = Some (io, app) \<and>
         io_task_pass (io\<lparr>s_io_event_queue := io_num # rest\<rparr>, app) =
           Some (io\<lparr>s_io_event_queue := rest\<rparr>, app)"
  using assms by (simp add: io_task_pass_def io_task_scan_no_match)


theorem spurious_identifier_ignored_witness:
  "99 \<notin> set DI \<and>
   io_task_pass (io_failing_sample, disabled_sample) =
     Some (io_failing_sample\<lparr>s_io_event_queue := []\<rparr>, disabled_sample)"
proof -
  have h: "99 \<notin> set DI"
    by (simp add: DI_def)
  have "io_failing_sample\<lparr>s_io_event_queue := 99 # []\<rparr> = io_failing_sample"
    by (simp add: io_failing_sample_def)
  with spurious_identifier_ignored [OF h, of io_failing_sample disabled_sample "[]"] h
  show ?thesis
    by simp
qed

end
